theory Spec2Isabelle
  imports Main "HOL-Library.Multiset"
begin


section \<open>Shared data model\<close>

text \<open>
  The asset model shared by the price resolver (class \<open>CroMarketApi\<close>) and the wallet
  creation page (\<open>onWalletCreateFinishCore\<close>). Only the fields the two functions read or
  write are kept. \<open>chainName\<close> stands for \<open>asset.config?.tendermintNetwork?.chainName\<close>,
  which is absent (\<open>None\<close>) when either optional link is missing.
\<close>

datatype UserAssetType = TENDERMINT | IBC | EVM | CRC_20_TOKEN | ERC_20_TOKEN

datatype SupportedChainName = CRYPTO_ORG | CRONOS | ETHEREUM | COSMOS_HUB

datatype DerivationPathStandard = BIP44 | LEDGER_LIVE

record UserAsset =
  "identifier" :: string
  assetType :: UserAssetType
  mainnetSymbol :: string
  symbol :: string
  address :: string
  chainName :: "SupportedChainName option"

text \<open>
  A thrown JavaScript value. \<open>Rejected\<close> is a promise rejected by a collaborator that
  is not part of the program (axios, the Ledger device, the wallet storage).
\<close>

datatype exn = Error string | TypeError string | Rejected string

section \<open>Price resolver: \<open>CroMarketApi\<close>\<close>

subsection \<open>Feed records\<close>

record CryptoComSlugResponse =
  dir_slug :: string
  dir_symbol :: string

text \<open>
  \<open>CryptoTokenPriceAPIResponse\<close>: \<open>tags\<close> may be absent on the feed. The two price
  fields are JSON scalars of an unspecified type \<open>'v\<close>; the program only passes them to
  \<open>Number\<close> and \<open>String\<close>.
\<close>

record 'v CryptoTokenPriceAPIResponse =
  tok_slug :: string
  tok_symbol :: string
  usd_price :: 'v
  usd_price_change_24h :: 'v
  tags :: "string list option"

record CoinbaseData =
  cb_currency :: string
  rates :: "string \<rightharpoonup> string"

record 'a AxiosResponse =
  status :: nat
  data :: 'a

record AssetMarketPrice =
  assetSymbol :: string
  amp_currency :: string
  amp_dailyChange :: string
  price :: string
  amp_assetType :: UserAssetType

record TokenPrice =
  dailyChange :: string
  fiatPrice :: string

subsection \<open>The environment and the state\<close>

text \<open>Every network request the class can issue; the state keeps them in issue order.\<close>

datatype request =
    GET_all_tokens
  | GET_tokens string
  | GET_exchange_rates string

text \<open>
  Everything the class takes from outside. The two whitelists are the key lists of the
  configuration tables \<open>CRC20MainnetTokenInfos\<close> and \<open>ERC20MainnetTokenInfos\<close>. Each
  \<open>axios_*\<close> field answers one kind of request, given the requests issued before it:
  \<open>Inl\<close> is a rejected promise, \<open>Inr\<close> a response with its status. \<open>arrival\<close>
  orders the responses of the concurrent per-candidate fetches. The remaining fields are
  the JavaScript built-ins \<open>Number\<close> (on a feed scalar and on a string), \<open>*\<close>,
  \<open>String\<close> (on a number and on a feed scalar) and \<open>String.prototype.toUpperCase\<close>.
\<close>

record ('v, 'n) market_env =
  whitelistedCRC20Tokens :: "string list"
  whitelistedERC20Tokens :: "string list"
  axios_all_tokens :: "request list \<Rightarrow> exn + CryptoComSlugResponse list AxiosResponse"
  axios_tokens :: "request list \<Rightarrow> string \<Rightarrow> exn + 'v CryptoTokenPriceAPIResponse AxiosResponse"
  axios_exchange_rates :: "request list \<Rightarrow> string \<Rightarrow> exn + CoinbaseData option AxiosResponse"
  arrival :: "request list \<Rightarrow> nat list"
  js_Number :: "'v \<Rightarrow> 'n"
  js_Number_of_string :: "string \<Rightarrow> 'n"
  js_times :: "'n \<Rightarrow> 'n \<Rightarrow> 'n"
  js_String :: "'n \<Rightarrow> string"
  js_String_of_scalar :: "'v \<Rightarrow> string"
  toUpperCase :: "string \<Rightarrow> string"

text \<open>
  \<open>TokenSlugMap\<close> is the module-level \<open>Map\<close>, \<open>tokenSlugMap\<close> the private field
  holding the memoised slug directory (\<open>None\<close> is \<open>null\<close>). The directory is
  fetched while the field is \<open>null\<close> or an empty array.
\<close>

record market_state =
  TokenSlugMap :: "string \<rightharpoonup> string"
  tokenSlugMap :: "CryptoComSlugResponse list option"
  requests :: "request list"

subsection \<open>Concurrent fetches\<close>

text \<open>
  \<open>arrange ord xs\<close> is \<open>xs\<close> in the order \<open>ord\<close> asks for: the valid indices of
  \<open>ord\<close>, each once, then the indices \<open>ord\<close> does not mention: a permutation of
  \<open>xs\<close>, whatever \<open>ord\<close> is.
\<close>

definition arrange :: "nat list \<Rightarrow> 'a list \<Rightarrow> 'a list" where
  "arrange ord xs =
     (let is = remdups (filter (\<lambda>i. i < length xs) ord)
      in map (nth xs) (is @ filter (\<lambda>i. i \<notin> set is) [0..<length xs]))"

text \<open>
  \<open>Promise.all\<close> over settled results taken in arrival order: the first rejection
  rejects the whole, otherwise the values are collected in that order (the callbacks
  \<open>push\<close> on arrival).
\<close>

fun collect :: "(exn + 'a) list \<Rightarrow> exn + 'a list" where
  "collect [] = Inr []"
| "collect (Inl e # rs) = Inl e"
| "collect (Inr x # rs) = (case collect rs of Inl e \<Rightarrow> Inl e | Inr xs \<Rightarrow> Inr (x # xs))"

text \<open>
  \<open>tokenSlugInfo.map(async slugInfo => await axios({url: `/tokens/${slugInfo?.slug}`}))\<close>:
  the requests are issued in directory order, before any response is looked at.
\<close>

fun issueTokenRequests ::
  "('v, 'n) market_env \<Rightarrow> CryptoComSlugResponse list \<Rightarrow> market_state
   \<Rightarrow> (exn + 'v CryptoTokenPriceAPIResponse AxiosResponse) list \<times> market_state" where
  "issueTokenRequests env [] s = ([], s)"
| "issueTokenRequests env (slugInfo # rest) s =
     (let r = axios_tokens env (requests s) (dir_slug slugInfo);
          s1 = s\<lparr>requests := requests s @ [GET_tokens (dir_slug slugInfo)]\<rparr>;
          (rs, s2) = issueTokenRequests env rest s1
      in (r # rs, s2))"

subsection \<open>The methods\<close>

definition loadTokenSlugMap ::
  "('v, 'n) market_env \<Rightarrow> market_state \<Rightarrow> (exn + CryptoComSlugResponse list) \<times> market_state" where
  "loadTokenSlugMap env s =
     (case tokenSlugMap s of
        Some (entry # entries) \<Rightarrow> (Inr (entry # entries), s)
      | _ \<Rightarrow>
        (let r = axios_all_tokens env (requests s);
             s1 = s\<lparr>requests := requests s @ [GET_all_tokens]\<rparr>
         in case r of
              Inl e \<Rightarrow> (Inl e, s1)
            | Inr allTokensSlugMap \<Rightarrow>
                if status allTokensSlugMap \<noteq> 200 \<or> length (data allTokensSlugMap) < 1
                then (Inl (Error ''Could not fetch Token Slug list.''), s1)
                else (Inr (data allTokensSlugMap),
                      s1\<lparr>tokenSlugMap := Some (data allTokensSlugMap)\<rparr>)))"

text \<open>
  The part \<open>getTokenSlug\<close> and \<open>getTokenPriceFromCryptoCom\<close> have in common: load the
  directory, keep the entries whose symbol is the asset's \<open>mainnetSymbol\<close>, fetch each
  candidate's price record concurrently, and collect the responses in arrival order
  (\<open>getTokenSlug\<close> pushes each response's \<open>data\<close>, the other method the response).
  The test \<open>if (!tokenSlugInfo)\<close> of the source never holds (an array is truthy) and has
  no branch here.
\<close>

definition fetchCandidates ::
  "('v, 'n) market_env \<Rightarrow> UserAsset \<Rightarrow> market_state
   \<Rightarrow> (exn + 'v CryptoTokenPriceAPIResponse AxiosResponse list) \<times> market_state" where
  "fetchCandidates env asset s =
     (case loadTokenSlugMap env s of
        (Inl e, s1) \<Rightarrow> (Inl e, s1)
      | (Inr allTokensSlugMap, s1) \<Rightarrow>
          (let tokenSlugInfo =
                 filter (\<lambda>tokenSlug. dir_symbol tokenSlug = mainnetSymbol asset) allTokensSlugMap;
               (rs, s2) = issueTokenRequests env tokenSlugInfo s1
           in (collect (arrange (arrival env (requests s2)) rs), s2)))"

definition nativeTokenSlug :: "string list" where
  "nativeTokenSlug = [''crypto-com-coin'', ''ethereum'', ''cosmos'']"

text \<open>
  \<open>getTokenSlug\<close>. The result \<open>Inr None\<close> is the returned \<open>null\<close>. The test
  \<open>!tokenPriceInUSD.slug\<close> holds for the empty string.
\<close>

definition getTokenSlug ::
  "('v, 'n) market_env \<Rightarrow> UserAsset \<Rightarrow> market_state \<Rightarrow> (exn + string option) \<times> market_state" where
  "getTokenSlug env asset s =
     (let cachedSlug = TokenSlugMap s (identifier asset) in
      if (case cachedSlug of None \<Rightarrow> False | Some c \<Rightarrow> length c > 0) then (Inr cachedSlug, s)
      else
        (case fetchCandidates env asset s of
           (Inl e, s2) \<Rightarrow> (Inl e, s2)
         | (Inr responses, s2) \<Rightarrow>
             (let tokenPriceResponses = map data responses;
                  tokenPriceInUSD =
                    find (\<lambda>token.
                       let tags' = (case tags token of None \<Rightarrow> [] | Some ts \<Rightarrow> ts) in
                         tok_slug token \<in> set nativeTokenSlug \<or>
                         (assetType asset = CRC_20_TOKEN \<and>
                            tok_symbol token \<in> set (whitelistedCRC20Tokens env)) \<or>
                         (assetType asset = CRC_20_TOKEN \<and> ''cronos-ecosystem'' \<in> set tags') \<or>
                         (assetType asset = ERC_20_TOKEN \<and>
                            toUpperCase env (tok_symbol token) \<in> set (whitelistedERC20Tokens env)))
                      tokenPriceResponses
              in case tokenPriceInUSD of
                   None \<Rightarrow> (Inr None, s2)
                 | Some t \<Rightarrow>
                     if tok_slug t = [] then (Inr None, s2)
                     else (Inr (Some (tok_slug t)),
                           s2\<lparr>TokenSlugMap := (TokenSlugMap s2)(identifier asset \<mapsto> tok_slug t)\<rparr>))))"

definition getCryptoToFiatRateFromCoinbase ::
  "('v, 'n) market_env \<Rightarrow> string \<Rightarrow> string \<Rightarrow> market_state \<Rightarrow> (exn + string) \<times> market_state" where
  "getCryptoToFiatRateFromCoinbase env cryptoSymbol fiatCurrency s =
     (let r = axios_exchange_rates env (requests s) cryptoSymbol;
          s1 = s\<lparr>requests := requests s @ [GET_exchange_rates cryptoSymbol]\<rparr>
      in case r of
           Inl e \<Rightarrow> (Inl e, s1)
         | Inr fiatRateResp \<Rightarrow>
             if status fiatRateResp \<noteq> 200
             then (Inl (Error ''Could not find requested market price info from Coinbase''), s1)
             else
               (case data fiatRateResp of
                  None \<Rightarrow>
                    (Inl (TypeError ''Could not find requested market price info from Coinbase''), s1)
                | Some d \<Rightarrow>
                    if cb_currency d = cryptoSymbol then
                      (case rates d fiatCurrency of
                         Some rate \<Rightarrow> (Inr rate, s1)
                       | None \<Rightarrow>
                           (Inl (TypeError
                               ''Could not find requested market price info from Coinbase''), s1))
                    else
                      (Inl (TypeError
                          ''Could not find requested market price info from Coinbase''), s1)))"

definition getFiatToFiatRate ::
  "('v, 'n) market_env \<Rightarrow> string \<Rightarrow> string \<Rightarrow> market_state \<Rightarrow> (exn + string) \<times> market_state" where
  "getFiatToFiatRate env fromFiatSymbol toFiatSymbol s =
     getCryptoToFiatRateFromCoinbase env fromFiatSymbol toFiatSymbol s"

definition getTokenPriceFromCryptoCom ::
  "('v, 'n) market_env \<Rightarrow> UserAsset \<Rightarrow> string \<Rightarrow> market_state \<Rightarrow> (exn + TokenPrice) \<times> market_state" where
  "getTokenPriceFromCryptoCom env asset fiatCurrency s =
     (case fetchCandidates env asset s of
        (Inl e, s2) \<Rightarrow> (Inl e, s2)
      | (Inr tokenPriceResponses, s2) \<Rightarrow>
          (let tokenPriceInUSD =
                 find (\<lambda>token.
                    let tags' = (case tags (data token) of None \<Rightarrow> [] | Some ts \<Rightarrow> ts) in
                      tok_slug (data token) \<in> set nativeTokenSlug \<or>
                      (assetType asset = CRC_20_TOKEN \<and>
                         tok_symbol (data token) \<in> set (whitelistedCRC20Tokens env)) \<or>
                      (assetType asset = CRC_20_TOKEN \<and> ''cronos-ecosystem'' \<in> set tags') \<or>
                      (assetType asset = ERC_20_TOKEN \<and>
                         toUpperCase env (tok_symbol (data token))
                           \<in> set (whitelistedERC20Tokens env)))
                   tokenPriceResponses
           in case tokenPriceInUSD of
                None \<Rightarrow>
                  (Inl (Error (''Couldn't find a valid slug name for '' @ mainnetSymbol asset)), s2)
              | Some t \<Rightarrow>
                  if status t \<noteq> 200 then (Inl (Error ''Could not fetch token price.''), s2)
                  else
                    (case (if fiatCurrency \<noteq> ''USD''
                           then getFiatToFiatRate env ''USD'' fiatCurrency s2
                           else (Inr ''1'', s2)) of
                       (Inl e, s3) \<Rightarrow> (Inl e, s3)
                     | (Inr usdToFiatRate, s3) \<Rightarrow>
                         (let tokenPriceInFiat =
                                js_times env (js_Number env (usd_price (data t)))
                                             (js_Number_of_string env usdToFiatRate)
                          in (Inr \<lparr>dailyChange =
                                     js_String_of_scalar env (usd_price_change_24h (data t)),
                                   fiatPrice = js_String env tokenPriceInFiat\<rparr>, s3)))))"

definition getAssetPrice ::
  "('v, 'n) market_env \<Rightarrow> UserAsset \<Rightarrow> string \<Rightarrow> market_state \<Rightarrow> AssetMarketPrice \<times> market_state" where
  "getAssetPrice env asset currency s =
     (case getTokenPriceFromCryptoCom env asset currency s of
        (Inl e, s') \<Rightarrow>
          (\<lparr>assetSymbol = mainnetSymbol asset, amp_currency = currency, amp_dailyChange = '''',
            price = '''', amp_assetType = assetType asset\<rparr>, s')
      | (Inr tokenPrice, s') \<Rightarrow>
          (\<lparr>assetSymbol = mainnetSymbol asset, amp_currency = currency,
            amp_dailyChange = dailyChange tokenPrice, price = fiatPrice tokenPrice,
            amp_assetType = assetType asset\<rparr>, s'))"

section \<open>Wallet creation page: \<open>onWalletCreateFinishCore\<close>\<close>

subsection \<open>Wallet draft, device, events\<close>

text \<open>The two wallet types, \<open>NORMAL_WALLET_TYPE\<close> and \<open>LEDGER_WALLET_TYPE\<close>.\<close>

datatype WalletType = NORMAL | LEDGER

text \<open>\<open>addressPrefix\<close> is \<open>config.network.addressPrefix\<close>, the one field of the
  selected network configuration the function reads.\<close>

record WalletConfig =
  addressPrefix :: string

record Wallet =
  walletType :: WalletType
  addressIndex :: nat
  config :: WalletConfig
  derivationPathStandard :: DerivationPathStandard
  wallet_address :: string

record CreatedWallet =
  cw_wallet :: Wallet
  cw_assets :: "UserAsset list"

text \<open>The values of \<open>props.form.getFieldsValue()\<close>; an unset \<open>walletType\<close> is \<open>None\<close>,
  an unset text field is the empty string.\<close>

record FormFields =
  form_addressIndex :: string
  form_name :: string
  form_walletType :: "WalletType option"
  form_network :: string
  form_derivationPathStandard :: DerivationPathStandard

record WalletCreateOptions =
  walletName :: string
  co_config :: WalletConfig
  co_walletType :: WalletType
  co_addressIndex :: "int option"
  co_derivationPathStandard :: DerivationPathStandard

text \<open>The two derivation calls of \<open>ISignerProvider\<close> the function issues, with their
  arguments.\<close>

datatype device_call =
    getAddress nat string SupportedChainName DerivationPathStandard bool
  | getEthAddress nat DerivationPathStandard bool

datatype ui_event =
    setCreateLoading bool
  | setIsLedgerCroAppConnected bool
  | setIsLedgerEthAppConnected bool
  | setIsLedgerCosmosAppConnected bool
  | setIsEthModalVisible bool
  | setIsCosmosModalVisible bool
  | setIsModalVisible bool
  | setWalletTempBackupSeed Wallet
  | setWallet Wallet
  | showErrorModal
  | console_error exn
  | resetFields

text \<open>
  What the function does to the outside, in order. A device call is two events: the call
  being issued and its promise settling (\<open>Inl\<close> rejected, \<open>Inr\<close> the address).
\<close>

datatype event =
    WalletCreator_create WalletCreateOptions
  | DeviceCall device_call
  | DeviceSettled device_call "exn + string"
  | Delay nat
  | SaveAssets "UserAsset list"
  | Ui ui_event

text \<open>
  The collaborators. \<open>device\<close> and \<open>saveAssets\<close> answer given the events so far.
  \<open>handler_fired tr\<close> tells whether, during the suspension that starts after the events
  \<open>tr\<close>, the user triggered one of the handlers that clear \<open>waitFlag\<close>
  (\<open>handleEthOk\<close>, \<open>handleEthCancel\<close>, \<open>handleCosmosOk\<close>, \<open>handleCosmosCancel\<close>).
  \<open>parseInt10\<close> is \<open>parseInt(_, 10)\<close>, \<open>None\<close> being \<open>NaN\<close>.
\<close>

record create_env =
  getSelectedNetwork :: "string \<Rightarrow> WalletConfig option"
  parseInt10 :: "string \<Rightarrow> int option"
  WalletCreator_result :: "WalletCreateOptions \<Rightarrow> exn + CreatedWallet"
  device :: "event list \<Rightarrow> device_call \<Rightarrow> exn + string"
  saveAssets :: "event list \<Rightarrow> UserAsset list \<Rightarrow> exn option"
  handler_fired :: "event list \<Rightarrow> bool"

text \<open>
  \<open>page_state\<close>: the module-level \<open>waitFlag\<close> and the events so far. \<open>run_state\<close>
  adds the draft once \<open>WalletCreator\<close> has returned it: \<open>wallet\<close> is
  \<open>createdWallet.wallet\<close> (the same object as \<open>targetWallet\<close>), \<open>assets\<close> is
  \<open>createdWallet.assets\<close>; both are mutated in place.
\<close>

record page_state =
  waitFlag :: bool
  trace :: "event list"

record run_state = page_state +
  wallet :: Wallet
  assets :: "UserAsset list"

subsection \<open>Suspension points\<close>

definition emit :: "event \<Rightarrow> 'a page_state_scheme \<Rightarrow> 'a page_state_scheme" where
  "emit ev s = s\<lparr>trace := trace s @ [ev]\<rparr>"

text \<open>An \<open>await\<close>: handlers may run, and the only thing they do to this state is clear
  \<open>waitFlag\<close>.\<close>

definition suspend :: "create_env \<Rightarrow> 'a page_state_scheme \<Rightarrow> 'a page_state_scheme" where
  "suspend env s = s\<lparr>waitFlag := waitFlag s \<and> \<not> handler_fired env (trace s)\<rparr>"

definition delay :: "create_env \<Rightarrow> nat \<Rightarrow> 'a page_state_scheme \<Rightarrow> 'a page_state_scheme" where
  "delay env ms s = suspend env (emit (Delay ms) s)"

definition deviceCall ::
  "create_env \<Rightarrow> device_call \<Rightarrow> 'a page_state_scheme \<Rightarrow> (exn + string) \<times> 'a page_state_scheme" where
  "deviceCall env c s =
     (let r = device env (trace s) c
      in (r, emit (DeviceSettled c r) (suspend env (emit (DeviceCall c) s))))"

text \<open>
  \<open>for (let i = 0; i < 600; i++) { await delay(100); if (!waitFlag) { break; } }\<close>
\<close>

function pollLoop :: "create_env \<Rightarrow> nat \<Rightarrow> 'a page_state_scheme \<Rightarrow> 'a page_state_scheme" where
  "pollLoop env i s =
     (if i < 600 then
        (let s1 = delay env 100 s
         in if \<not> waitFlag s1 then s1 else pollLoop env (i + 1) s1)
      else s)"
  by pat_completeness auto
termination
  by (relation "measure (\<lambda>(env, i, s). 600 - i)") auto

subsection \<open>Address assignment\<close>

text \<open>
  \<open>const a = assets.filter(P)[0]; a.address = addr;\<close> writes the address into the first
  asset satisfying \<open>P\<close>; with no such asset \<open>a\<close> is \<open>undefined\<close> and the assignment
  throws a \<open>TypeError\<close> (\<open>None\<close>).
\<close>

fun assignFirst :: "(UserAsset \<Rightarrow> bool) \<Rightarrow> string \<Rightarrow> UserAsset list \<Rightarrow> UserAsset list option" where
  "assignFirst P addr [] = None"
| "assignFirst P addr (a # rest) =
     (if P a then Some (a\<lparr>address := addr\<rparr> # rest)
      else map_option (Cons a) (assignFirst P addr rest))"

definition isCroAsset :: "UserAsset \<Rightarrow> bool" where
  "isCroAsset asset = (assetType asset = TENDERMINT \<and> mainnetSymbol asset = ''CRO'')"

definition isEvmAsset :: "UserAsset \<Rightarrow> bool" where
  "isEvmAsset asset = (assetType asset = EVM)"

definition isAtomAsset :: "UserAsset \<Rightarrow> bool" where
  "isAtomAsset asset = (assetType asset = TENDERMINT \<and> chainName asset = Some COSMOS_HUB)"

subsection \<open>The three derivation steps\<close>

text \<open>The three device calls, with the arguments the function takes from
  \<open>targetWallet\<close> and from the form. Each step returns the thrown value, if any, and the
  state at that point.\<close>

definition croCall :: "Wallet \<Rightarrow> device_call" where
  "croCall targetWallet =
     getAddress (addressIndex targetWallet) (addressPrefix (config targetWallet))
       CRYPTO_ORG (derivationPathStandard targetWallet) False"

definition ethCall :: "FormFields \<Rightarrow> Wallet \<Rightarrow> device_call" where
  "ethCall form targetWallet =
     getEthAddress (addressIndex targetWallet) (form_derivationPathStandard form) False"

definition cosmosCall :: "Wallet \<Rightarrow> device_call" where
  "cosmosCall targetWallet =
     getAddress (addressIndex targetWallet) ''cosmos''
       COSMOS_HUB (derivationPathStandard targetWallet) False"

definition deriveCro :: "create_env \<Rightarrow> run_state \<Rightarrow> exn option \<times> run_state" where
  "deriveCro env s =
     (case deviceCall env (croCall (wallet s)) s of
        (Inl e, s1) \<Rightarrow> (Some e, s1)
      | (Inr croAddress, s1) \<Rightarrow>
          (case assignFirst isCroAsset croAddress (assets s1) of
             None \<Rightarrow> (Some (TypeError ''Cannot set properties of undefined''), s1)
           | Some assets' \<Rightarrow>
               (None, s1\<lparr>wallet := (wallet s1)\<lparr>wallet_address := croAddress\<rparr>,
                          assets := assets'\<rparr>)))"

definition deriveEth :: "create_env \<Rightarrow> FormFields \<Rightarrow> run_state \<Rightarrow> exn option \<times> run_state" where
  "deriveEth env form s =
     (let s1 = s\<lparr>waitFlag := True\<rparr>;
          s2 = emit (Ui (setIsEthModalVisible True)) s1;
          s3 = pollLoop env 0 s2
      in case deviceCall env (ethCall form (wallet s3)) s3 of
           (Inl e, s4) \<Rightarrow> (Some e, s4)
         | (Inr ethAddress, s4) \<Rightarrow>
             (let s5 = s4\<lparr>assets :=
                          map (\<lambda>asset. if isEvmAsset asset then asset\<lparr>address := ethAddress\<rparr>
                                         else asset) (assets s4)\<rparr>;
                  s6 = emit (Ui (setIsLedgerEthAppConnected True)) s5;
                  s7 = delay env 3000 s6;
                  s8 = emit (Ui (setIsEthModalVisible False)) s7
              in (None, s8)))"

definition deriveCosmos :: "create_env \<Rightarrow> run_state \<Rightarrow> exn option \<times> run_state" where
  "deriveCosmos env s =
     (let s1 = s\<lparr>waitFlag := True\<rparr>;
          s2 = emit (Ui (setIsCosmosModalVisible True)) s1;
          s3 = pollLoop env 0 s2;
          s4 = emit (Ui (setIsLedgerCosmosAppConnected True)) s3
      in case deviceCall env (cosmosCall (wallet s4)) s4 of
           (Inl e, s5) \<Rightarrow> (Some e, s5)
         | (Inr cosmosHubAddress, s5) \<Rightarrow>
             (case assignFirst isAtomAsset cosmosHubAddress (assets s5) of
                None \<Rightarrow> (Some (TypeError ''Cannot set properties of undefined''), s5)
              | Some assets' \<Rightarrow> (None, s5\<lparr>assets := assets'\<rparr>)))"

text \<open>The body of \<open>if (targetWallet.walletType === LEDGER_WALLET_TYPE) { ... }\<close>.\<close>

definition ledgerSequence :: "create_env \<Rightarrow> FormFields \<Rightarrow> run_state \<Rightarrow> exn option \<times> run_state" where
  "ledgerSequence env form s =
     (case deriveCro env s of
        (Some e, s1) \<Rightarrow> (Some e, s1)
      | (None, s1) \<Rightarrow>
          (case deriveEth env form s1 of
             (Some e, s2) \<Rightarrow> (Some e, s2)
           | (None, s2) \<Rightarrow> deriveCosmos env s2))"

subsection \<open>The whole function\<close>

text \<open>
  How the function ends: an early \<open>return\<close> before the \<open>try\<close>, \<open>WalletCreator\<close>
  rejecting (caught, no draft exists), a later throw caught with the draft as it then
  is, or the normal end.
\<close>

datatype finish =
    EarlyReturn page_state
  | CreateFailed exn page_state
  | Caught exn run_state
  | Completed run_state

definition catchBlock :: "exn \<Rightarrow> 'a page_state_scheme \<Rightarrow> 'a page_state_scheme" where
  "catchBlock e s =
     emit (Ui showErrorModal)
       (emit (Ui (setIsLedgerCosmosAppConnected False))
         (emit (Ui (setIsLedgerEthAppConnected False))
           (emit (Ui (setIsLedgerCroAppConnected False))
             (emit (Ui (setCreateLoading False))
               (emit (Ui (console_error e)) s)))))"

definition afterDerivation :: "create_env \<Rightarrow> run_state \<Rightarrow> finish" where
  "afterDerivation env s =
     (let r = saveAssets env (trace s) (assets s);
          s1 = suspend env (emit (SaveAssets (assets s)) s)
      in case r of
           Some e \<Rightarrow> Caught e (catchBlock e s1)
         | None \<Rightarrow>
             Completed
               (emit (Ui resetFields)
                 (emit (Ui (setIsModalVisible True))
                   (emit (Ui (setIsLedgerCosmosAppConnected False))
                     (emit (Ui (setIsLedgerEthAppConnected False))
                       (emit (Ui (setIsLedgerCroAppConnected False))
                         (emit (Ui (setCreateLoading False))
                           (emit (Ui (setWallet (wallet s1)))
                             (emit (Ui (setWalletTempBackupSeed (wallet s1))) s1)))))))))"

definition onWalletCreateFinishCore :: "create_env \<Rightarrow> FormFields \<Rightarrow> page_state \<Rightarrow> finish" where
  "onWalletCreateFinishCore env form s0 =
     (let s = emit (Ui (setCreateLoading True)) s0 in
      if form_name form = [] \<or> form_walletType form = None \<or> form_network form = []
      then EarlyReturn s
      else
        (case (form_walletType form, getSelectedNetwork env (form_network form)) of
           (Some wt, Some selectedNetworkConfig) \<Rightarrow>
             (let createOptions =
                    \<lparr>walletName = form_name form, co_config = selectedNetworkConfig,
                     co_walletType = wt,
                     co_addressIndex = parseInt10 env (form_addressIndex form),
                     co_derivationPathStandard = form_derivationPathStandard form\<rparr>;
                  s1 = suspend env (emit (WalletCreator_create createOptions) s)
              in case WalletCreator_result env createOptions of
                   Inl e \<Rightarrow> CreateFailed e (catchBlock e s1)
                 | Inr createdWallet \<Rightarrow>
                     (let s2 = \<lparr>waitFlag = waitFlag s1, trace = trace s1,
                                wallet = cw_wallet createdWallet,
                                assets = cw_assets createdWallet\<rparr>
                      in case (if walletType (wallet s2) = LEDGER
                               then ledgerSequence env form s2 else (None, s2)) of
                           (Some e, s3) \<Rightarrow> Caught e (catchBlock e s3)
                         | (None, s3) \<Rightarrow> afterDerivation env s3))
         | _ \<Rightarrow> EarlyReturn s))"


section \<open>Notions used to state the properties\<close>

text \<open>
  The selection rule in the specification's words: a candidate qualifies when its slug is
  one of the three native slugs, or the asset is a CRC-20 token and the candidate's symbol
  is whitelisted, or the asset is a CRC-20 token and the candidate is tagged
  \<open>cronos-ecosystem\<close> (an absent tag list counting as empty), or the asset is an ERC-20
  token and the candidate's upper-cased symbol is whitelisted.
\<close>

definition candidateQualifies ::
  "('v, 'n) market_env \<Rightarrow> UserAssetType \<Rightarrow> 'v CryptoTokenPriceAPIResponse \<Rightarrow> bool" where
  "candidateQualifies env aT token =
     (tok_slug token = ''crypto-com-coin'' \<or> tok_slug token = ''ethereum'' \<or> tok_slug token = ''cosmos'' \<or>
      (aT = CRC_20_TOKEN \<and> tok_symbol token \<in> set (whitelistedCRC20Tokens env)) \<or>
      (aT = CRC_20_TOKEN \<and>
         ''cronos-ecosystem'' \<in> set (case tags token of None \<Rightarrow> [] | Some ts \<Rightarrow> ts)) \<or>
      (aT = ERC_20_TOKEN \<and> toUpperCase env (tok_symbol token) \<in> set (whitelistedERC20Tokens env)))"

text \<open>The slug cache holds a non-empty slug for the asset's identifier.\<close>

definition cacheHit :: "market_state \<Rightarrow> UserAsset \<Rightarrow> bool" where
  "cacheHit s asset = (case TokenSlugMap s (identifier asset) of None \<Rightarrow> False | Some c \<Rightarrow> c \<noteq> [])"

text \<open>The record \<open>getAssetPrice\<close> returns from its \<open>catch\<close> block, and the one it returns
  otherwise.\<close>

definition noPrice :: "UserAsset \<Rightarrow> string \<Rightarrow> AssetMarketPrice" where
  "noPrice asset currency =
     \<lparr>assetSymbol = mainnetSymbol asset, amp_currency = currency, amp_dailyChange = '''',
      price = '''', amp_assetType = assetType asset\<rparr>"

definition priced :: "UserAsset \<Rightarrow> string \<Rightarrow> string \<Rightarrow> string \<Rightarrow> AssetMarketPrice" where
  "priced asset currency p d =
     \<lparr>assetSymbol = mainnetSymbol asset, amp_currency = currency, amp_dailyChange = d,
      price = p, amp_assetType = assetType asset\<rparr>"

subsection \<open>A concrete feed\<close>

text \<open>
  A feed whose every response has status 200: the directory has the one entry
  \<open>crypto-com-coin\<close> for \<open>CRO\<close>, the exchange-rate source answers with an empty rate
  table. Numbers are kept symbolic (\<open>a*b\<close> for a product). The state has the directory
  memoised and the asset's slug cached.
\<close>

definition demo_env :: "(string, string) market_env" where
  "demo_env =
     \<lparr>whitelistedCRC20Tokens = [''VVS''], whitelistedERC20Tokens = [''USDC''],
      axios_all_tokens = (\<lambda>h. Inr \<lparr>status = 200,
         data = [\<lparr>dir_slug = ''crypto-com-coin'', dir_symbol = ''CRO''\<rparr>]\<rparr>),
      axios_tokens = (\<lambda>h u. Inr \<lparr>status = 200,
         data = \<lparr>tok_slug = u, tok_symbol = ''CRO'', usd_price = ''0.08'',
                 usd_price_change_24h = ''0.01'', tags = None\<rparr>\<rparr>),
      axios_exchange_rates = (\<lambda>h c. Inr \<lparr>status = 200,
         data = Some \<lparr>cb_currency = c, rates = Map.empty\<rparr>\<rparr>),
      arrival = (\<lambda>h. []),
      js_Number = id, js_Number_of_string = id,
      js_times = (\<lambda>a b. a @ ''*'' @ b),
      js_String = id, js_String_of_scalar = id, toUpperCase = id\<rparr>"

definition demo_asset :: UserAsset where
  "demo_asset = \<lparr>identifier = ''cro-mainnet'', assetType = TENDERMINT, mainnetSymbol = ''CRO'',
                  symbol = ''CRO'', address = '''', chainName = Some CRYPTO_ORG\<rparr>"

definition demo_state :: market_state where
  "demo_state = \<lparr>TokenSlugMap = [''cro-mainnet'' \<mapsto> ''crypto-com-coin''],
                  tokenSlugMap = Some [\<lparr>dir_slug = ''crypto-com-coin'', dir_symbol = ''CRO''\<rparr>],
                  requests = []\<rparr>"

subsection \<open>A concrete CRC-20 resolution\<close>

text \<open>
  A feed with two directory entries for \<open>VVS\<close>; only \<open>vvs-finance\<close> reports the
  whitelisted symbol, and its response arrives second. Nothing is cached or memoised in
  the state.
\<close>

definition crc_env :: "(string, string) market_env" where
  "crc_env =
     \<lparr>whitelistedCRC20Tokens = [''VVS''], whitelistedERC20Tokens = [''USDC''],
      axios_all_tokens = (\<lambda>h. Inr \<lparr>status = 200,
         data = [\<lparr>dir_slug = ''vvs-finance'', dir_symbol = ''VVS''\<rparr>,
                 \<lparr>dir_slug = ''vvs-other'', dir_symbol = ''VVS''\<rparr>]\<rparr>),
      axios_tokens = (\<lambda>h u. Inr \<lparr>status = 200,
         data = \<lparr>tok_slug = u,
                 tok_symbol = (if u = ''vvs-finance'' then ''VVS'' else ''vvs''),
                 usd_price = ''0.5'', usd_price_change_24h = ''0.1'', tags = None\<rparr>\<rparr>),
      axios_exchange_rates = (\<lambda>h c. Inl (Rejected ''offline'')),
      arrival = (\<lambda>h. [1, 0]),
      js_Number = id, js_Number_of_string = id,
      js_times = (\<lambda>a b. a @ ''*'' @ b),
      js_String = id, js_String_of_scalar = id, toUpperCase = id\<rparr>"

definition crc_asset :: UserAsset where
  "crc_asset = \<lparr>identifier = ''vvs-cronos'', assetType = CRC_20_TOKEN, mainnetSymbol = ''VVS'',
                 symbol = ''VVS'', address = '''', chainName = None\<rparr>"

definition crc_state :: market_state where
  "crc_state = \<lparr>TokenSlugMap = Map.empty, tokenSlugMap = None, requests = []\<rparr>"

definition crc_other :: "string CryptoTokenPriceAPIResponse AxiosResponse" where
  "crc_other = \<lparr>status = 200, data = \<lparr>tok_slug = ''vvs-other'', tok_symbol = ''vvs'',
                 usd_price = ''0.5'', usd_price_change_24h = ''0.1'', tags = None\<rparr>\<rparr>"

definition crc_finance :: "string CryptoTokenPriceAPIResponse AxiosResponse" where
  "crc_finance = \<lparr>status = 200, data = \<lparr>tok_slug = ''vvs-finance'', tok_symbol = ''VVS'',
                 usd_price = ''0.5'', usd_price_change_24h = ''0.1'', tags = None\<rparr>\<rparr>"

text \<open>
  The same feed, except that every candidate reports the symbol in lower case
  (\<open>vvs\<close>), which is not in the whitelist.
\<close>

definition lowercase_env :: "(string, string) market_env" where
  "lowercase_env =
     crc_env\<lparr>axios_tokens := (\<lambda>h u. Inr \<lparr>status = 200,
        data = \<lparr>tok_slug = u, tok_symbol = ''vvs'', usd_price = ''0.5'',
                usd_price_change_24h = ''0.1'', tags = None\<rparr>\<rparr>)\<rparr>"

section \<open>Wallet creation page: notions used to state the properties\<close>

subsection \<open>The polling loop\<close>

text \<open>
  \<open>afterPolls env k s\<close> is the state after \<open>k\<close> polls of 100 ms from \<open>s\<close>;
  \<open>pollCount env s\<close> is the number of events the loop adds to the trace, that is, the
  number of polls it performs from \<open>s\<close>.
\<close>

definition afterPolls :: "create_env \<Rightarrow> nat \<Rightarrow> 'a page_state_scheme \<Rightarrow> 'a page_state_scheme" where
  "afterPolls env k s = ((delay env 100) ^^ k) s"

definition pollCount :: "create_env \<Rightarrow> 'a page_state_scheme \<Rightarrow> nat" where
  "pollCount env s = length (trace (pollLoop env 0 s)) - length (trace s)"

subsection \<open>Segments of a run\<close>

text \<open>
  The events of each stage of the function, in order: the start (up to the call of
  \<open>WalletCreator\<close>), the Crypto.org step, the Ethereum step with its \<open>n\<close> polls and what
  follows a successful Ethereum call, the Cosmos Hub step with its \<open>n\<close> polls, the
  \<open>catch\<close> block, and the normal end.
\<close>

definition prelude :: "WalletCreateOptions \<Rightarrow> event list" where
  "prelude opts = [Ui (setCreateLoading True), WalletCreator_create opts]"

definition croEvents :: "device_call \<Rightarrow> exn + string \<Rightarrow> event list" where
  "croEvents c r = [DeviceCall c, DeviceSettled c r]"

definition ethEvents :: "nat \<Rightarrow> device_call \<Rightarrow> exn + string \<Rightarrow> event list" where
  "ethEvents n c r =
     [Ui (setIsEthModalVisible True)] @ replicate n (Delay 100) @ [DeviceCall c, DeviceSettled c r]"

definition ethTail :: "event list" where
  "ethTail = [Ui (setIsLedgerEthAppConnected True), Delay 3000, Ui (setIsEthModalVisible False)]"

definition cosmosEvents :: "nat \<Rightarrow> device_call \<Rightarrow> exn + string \<Rightarrow> event list" where
  "cosmosEvents n c r =
     [Ui (setIsCosmosModalVisible True)] @ replicate n (Delay 100) @
     [Ui (setIsLedgerCosmosAppConnected True), DeviceCall c, DeviceSettled c r]"

definition catchEvents :: "exn \<Rightarrow> event list" where
  "catchEvents e =
     [Ui (console_error e), Ui (setCreateLoading False), Ui (setIsLedgerCroAppConnected False),
      Ui (setIsLedgerEthAppConnected False), Ui (setIsLedgerCosmosAppConnected False),
      Ui showErrorModal]"

definition finishEvents :: "Wallet \<Rightarrow> event list" where
  "finishEvents w =
     [Ui (setWalletTempBackupSeed w), Ui (setWallet w), Ui (setCreateLoading False),
      Ui (setIsLedgerCroAppConnected False), Ui (setIsLedgerEthAppConnected False),
      Ui (setIsLedgerCosmosAppConnected False), Ui (setIsModalVisible True), Ui resetFields]"

text \<open>The assignment of the Ethereum step: every asset of type \<open>EVM\<close> gets the address.\<close>

definition setEvmAddress :: "string \<Rightarrow> UserAsset list \<Rightarrow> UserAsset list" where
  "setEvmAddress ethAddress as =
     map (\<lambda>asset. if isEvmAsset asset then asset\<lparr>address := ethAddress\<rparr> else asset) as"


subsection \<open>Runs for a Ledger wallet\<close>

text \<open>
  \<open>ledgerRun\<close>: the form is filled in, the network is known, \<open>WalletCreator\<close> returns
  the draft \<open>cw\<close>, and the draft's wallet is of type \<open>LEDGER\<close>. \<open>startState\<close> is the
  state in which the derivation sequence then starts.
\<close>

definition createOptionsOf :: "create_env \<Rightarrow> FormFields \<Rightarrow> WalletType \<Rightarrow> WalletConfig \<Rightarrow> WalletCreateOptions" where
  "createOptionsOf env form wt cfg =
     \<lparr>walletName = form_name form, co_config = cfg, co_walletType = wt,
      co_addressIndex = parseInt10 env (form_addressIndex form),
      co_derivationPathStandard = form_derivationPathStandard form\<rparr>"

definition ledgerRun ::
  "create_env \<Rightarrow> FormFields \<Rightarrow> WalletType \<Rightarrow> WalletConfig \<Rightarrow> CreatedWallet \<Rightarrow> bool" where
  "ledgerRun env form wt cfg cw =
     (form_name form \<noteq> [] \<and> form_network form \<noteq> [] \<and> form_walletType form = Some wt \<and>
      getSelectedNetwork env (form_network form) = Some cfg \<and>
      WalletCreator_result env (createOptionsOf env form wt cfg) = Inr cw \<and>
      walletType (cw_wallet cw) = LEDGER)"

definition startState :: "create_env \<Rightarrow> WalletCreateOptions \<Rightarrow> CreatedWallet \<Rightarrow> page_state \<Rightarrow> run_state" where
  "startState env opts cw s0 =
     \<lparr>waitFlag = waitFlag s0 \<and> \<not> handler_fired env (trace s0 @ prelude opts),
      trace = trace s0 @ prelude opts,
      wallet = cw_wallet cw, assets = cw_assets cw\<rparr>"

subsection \<open>Observations on a trace\<close>

text \<open>
  \<open>runEvents\<close> are the events a call adds to the trace. Of a list of events:
  \<open>deviceCalls\<close> are the device calls issued, in order; \<open>settlements\<close> the settled
  device promises with their outcome; \<open>saves\<close> the arguments of \<open>saveAssets\<close>.
  \<open>callThenSettle\<close> holds of a list of device events made of pairs, a call followed by
  its own settlement: no call is issued while another is pending.
\<close>

fun finalTrace :: "finish \<Rightarrow> event list" where
  "finalTrace (EarlyReturn s) = trace s"
| "finalTrace (CreateFailed e s) = trace s"
| "finalTrace (Caught e s) = trace s"
| "finalTrace (Completed s) = trace s"

definition runEvents :: "page_state \<Rightarrow> finish \<Rightarrow> event list" where
  "runEvents s0 res = drop (length (trace s0)) (finalTrace res)"

fun deviceCalls :: "event list \<Rightarrow> device_call list" where
  "deviceCalls [] = []"
| "deviceCalls (DeviceCall c # es) = c # deviceCalls es"
| "deviceCalls (e # es) = deviceCalls es"

fun settlements :: "event list \<Rightarrow> (device_call \<times> (exn + string)) list" where
  "settlements [] = []"
| "settlements (DeviceSettled c r # es) = (c, r) # settlements es"
| "settlements (e # es) = settlements es"

fun saves :: "event list \<Rightarrow> UserAsset list list" where
  "saves [] = []"
| "saves (SaveAssets as # es) = as # saves es"
| "saves (e # es) = saves es"

fun isDeviceEvent :: "event \<Rightarrow> bool" where
  "isDeviceEvent (DeviceCall c) = True"
| "isDeviceEvent (DeviceSettled c r) = True"
| "isDeviceEvent e = False"

fun callThenSettle :: "event list \<Rightarrow> bool" where
  "callThenSettle [] = True"
| "callThenSettle (DeviceCall c # DeviceSettled c' r # es) = (c = c' \<and> callThenSettle es)"
| "callThenSettle es = False"

subsection \<open>A concrete Ledger draft\<close>

text \<open>
  A draft with the four assets of a new wallet, a device that answers every call
  (\<open>demo_device\<close>) and one whose Ethereum app is not open (\<open>wrong_app_device\<close>). The user
  confirms each app switch at once, so that each wait ends after one poll.
\<close>

definition demo_wallet :: Wallet where
  "demo_wallet = \<lparr>walletType = LEDGER, addressIndex = 0, config = \<lparr>addressPrefix = ''cro''\<rparr>,
                   derivationPathStandard = BIP44, wallet_address = ''''\<rparr>"

definition demo_assets :: "UserAsset list" where
  "demo_assets =
     [\<lparr>identifier = ''cro'', assetType = TENDERMINT, mainnetSymbol = ''CRO'', symbol = ''CRO'',
       address = '''', chainName = Some CRYPTO_ORG\<rparr>,
      \<lparr>identifier = ''cronos'', assetType = EVM, mainnetSymbol = ''CRO'', symbol = ''CRO'',
       address = '''', chainName = None\<rparr>,
      \<lparr>identifier = ''eth'', assetType = EVM, mainnetSymbol = ''ETH'', symbol = ''ETH'',
       address = '''', chainName = None\<rparr>,
      \<lparr>identifier = ''atom'', assetType = TENDERMINT, mainnetSymbol = ''ATOM'', symbol = ''ATOM'',
       address = '''', chainName = Some COSMOS_HUB\<rparr>]"

definition demo_created :: CreatedWallet where
  "demo_created = \<lparr>cw_wallet = demo_wallet, cw_assets = demo_assets\<rparr>"

definition demo_device :: "event list \<Rightarrow> device_call \<Rightarrow> exn + string" where
  "demo_device tr c =
     (case c of
        getAddress i p ch st cf \<Rightarrow> if ch = COSMOS_HUB then Inr ''cosmos1'' else Inr ''cro1''
      | getEthAddress i st cf \<Rightarrow> Inr ''0xe'')"

definition wrong_app_device :: "event list \<Rightarrow> device_call \<Rightarrow> exn + string" where
  "wrong_app_device tr c =
     (case c of
        getAddress i p ch st cf \<Rightarrow> Inr ''cro1''
      | getEthAddress i st cf \<Rightarrow> Inl (Rejected ''wrong app''))"

definition demo_page_env :: create_env where
  "demo_page_env =
     \<lparr>getSelectedNetwork = (\<lambda>n. Some \<lparr>addressPrefix = ''cro''\<rparr>),
      parseInt10 = (\<lambda>s. Some 0),
      WalletCreator_result = (\<lambda>opts. Inr demo_created),
      device = demo_device,
      saveAssets = (\<lambda>tr as. None),
      handler_fired = (\<lambda>tr. True)\<rparr>"

definition wrong_app_env :: create_env where
  "wrong_app_env = demo_page_env\<lparr>device := wrong_app_device\<rparr>"

definition demo_form :: FormFields where
  "demo_form = \<lparr>form_addressIndex = ''0'', form_name = ''ledger wallet'',
                 form_walletType = Some LEDGER, form_network = ''MAINNET'',
                 form_derivationPathStandard = BIP44\<rparr>"

definition demo_page :: page_state where
  "demo_page = \<lparr>waitFlag = False, trace = []\<rparr>"

subsection \<open>The draft at the end of a call\<close>




subsection \<open>A draft whose CRO asset is on the Cosmos Hub chain\<close>





section \<open>Price resolver: auxiliary facts\<close>

lemma arrange_mset: "mset (arrange ord xs) = mset xs"
proof -
  let ?is = "remdups (filter (\<lambda>i. i < length xs) ord)"
  let ?js = "?is @ filter (\<lambda>i. i \<notin> set ?is) [0..<length xs]"
  have d: "distinct ?js" by auto
  have d': "distinct [0..<length xs]" by simp
  have e: "set ?js = set [0..<length xs]" by auto
  from set_eq_iff_mset_eq_distinct[OF d d'] e have "mset ?js = mset [0..<length xs]"
    by blast
  then have "image_mset (nth xs) (mset ?js) = image_mset (nth xs) (mset [0..<length xs])"
    by (rule arg_cong)
  then have "mset (map (nth xs) ?js) = mset (map (nth xs) [0..<length xs])"
    by (simp only: mset_map)
  then show ?thesis by (simp add: arrange_def Let_def map_nth)
qed

lemma issueTokenRequests_state:
  "issueTokenRequests env xs s = (rs, s') \<Longrightarrow>
     TokenSlugMap s' = TokenSlugMap s \<and> tokenSlugMap s' = tokenSlugMap s \<and>
     requests s' = requests s @ map (\<lambda>x. GET_tokens (dir_slug x)) xs \<and> length rs = length xs"
proof (induction xs arbitrary: s rs s')
  case Nil
  then show ?case by simp
next
  case (Cons x xs)
  obtain rs1 s1 where rec:
    "issueTokenRequests env xs (s\<lparr>requests := requests s @ [GET_tokens (dir_slug x)]\<rparr>) = (rs1, s1)"
    by (cases "issueTokenRequests env xs (s\<lparr>requests := requests s @ [GET_tokens (dir_slug x)]\<rparr>)")
  from Cons.IH[OF rec] Cons.prems rec show ?case
    by (auto simp: Let_def)
qed

lemma loadTokenSlugMap_memo:
  "tokenSlugMap s = Some (x # xs) \<Longrightarrow> loadTokenSlugMap env s = (Inr (x # xs), s)"
  by (simp add: loadTokenSlugMap_def)

lemma loadTokenSlugMap_state:
  "loadTokenSlugMap env s = (r, s') \<Longrightarrow>
     TokenSlugMap s' = TokenSlugMap s \<and>
     (requests s' = requests s \<or> requests s' = requests s @ [GET_all_tokens])"
  by (auto simp: loadTokenSlugMap_def Let_def split: option.splits list.splits sum.splits if_splits)


lemma fetchCandidates_state:
  assumes "fetchCandidates env asset s = (r, s')"
  shows "TokenSlugMap s' = TokenSlugMap s \<and>
         (\<exists>new. requests s' = requests s @ new \<and> (\<forall>c. GET_exchange_rates c \<notin> set new))"
proof (cases "loadTokenSlugMap env s")
  case (Pair lr s1)
  note l = loadTokenSlugMap_state[OF Pair]
  show ?thesis
  proof (cases lr)
    case (Inl e)
    with assms Pair have "s' = s1" by (simp add: fetchCandidates_def)
    with l show ?thesis by auto
  next
    case (Inr all)
    obtain rs s2 where i: "issueTokenRequests env
        (filter (\<lambda>tokenSlug. dir_symbol tokenSlug = mainnetSymbol asset) all) s1 = (rs, s2)"
      by (cases "issueTokenRequests env
        (filter (\<lambda>tokenSlug. dir_symbol tokenSlug = mainnetSymbol asset) all) s1")
    with assms Pair Inr have "s' = s2" by (simp add: fetchCandidates_def)
    with l issueTokenRequests_state[OF i] show ?thesis by auto
  qed
qed


lemma qualifies_lambda:
  "(\<lambda>token.
       tok_slug token \<in> set nativeTokenSlug \<or>
       (aT = CRC_20_TOKEN \<and> tok_symbol token \<in> set (whitelistedCRC20Tokens env)) \<or>
       (aT = CRC_20_TOKEN \<and> ''cronos-ecosystem'' \<in> set (case tags token of None \<Rightarrow> [] | Some ts \<Rightarrow> ts)) \<or>
       (aT = ERC_20_TOKEN \<and> toUpperCase env (tok_symbol token) \<in> set (whitelistedERC20Tokens env)))
   = candidateQualifies env aT"
  by (auto simp: fun_eq_iff candidateQualifies_def nativeTokenSlug_def)

lemma qualifies_lambda_data:
  "(\<lambda>token.
       tok_slug (data token) \<in> set nativeTokenSlug \<or>
       (aT = CRC_20_TOKEN \<and> tok_symbol (data token) \<in> set (whitelistedCRC20Tokens env)) \<or>
       (aT = CRC_20_TOKEN \<and>
          ''cronos-ecosystem'' \<in> set (case tags (data token) of None \<Rightarrow> [] | Some ts \<Rightarrow> ts)) \<or>
       (aT = ERC_20_TOKEN \<and>
          toUpperCase env (tok_symbol (data token)) \<in> set (whitelistedERC20Tokens env)))
   = (\<lambda>token. candidateQualifies env aT (data token))"
  by (auto simp: fun_eq_iff candidateQualifies_def nativeTokenSlug_def)

lemma getTokenPriceFromCryptoCom_alt:
  "getTokenPriceFromCryptoCom env asset fiatCurrency s =
     (case fetchCandidates env asset s of
        (Inl e, s2) \<Rightarrow> (Inl e, s2)
      | (Inr tokenPriceResponses, s2) \<Rightarrow>
          (case find (\<lambda>token. candidateQualifies env (assetType asset) (data token))
                  tokenPriceResponses of
             None \<Rightarrow>
               (Inl (Error (''Couldn't find a valid slug name for '' @ mainnetSymbol asset)), s2)
           | Some t \<Rightarrow>
               if status t \<noteq> 200 then (Inl (Error ''Could not fetch token price.''), s2)
               else
                 (case (if fiatCurrency \<noteq> ''USD''
                        then getCryptoToFiatRateFromCoinbase env ''USD'' fiatCurrency s2
                        else (Inr ''1'', s2)) of
                    (Inl e, s3) \<Rightarrow> (Inl e, s3)
                  | (Inr usdToFiatRate, s3) \<Rightarrow>
                      (Inr \<lparr>dailyChange = js_String_of_scalar env (usd_price_change_24h (data t)),
                            fiatPrice = js_String env
                              (js_times env (js_Number env (usd_price (data t)))
                                            (js_Number_of_string env usdToFiatRate))\<rparr>, s3))))"
  unfolding getTokenPriceFromCryptoCom_def getFiatToFiatRate_def Let_def qualifies_lambda_data
  by (rule refl)

lemma getTokenSlug_alt:
  "getTokenSlug env asset s =
     (if cacheHit s asset then (Inr (TokenSlugMap s (identifier asset)), s)
      else
        (case fetchCandidates env asset s of
           (Inl e, s2) \<Rightarrow> (Inl e, s2)
         | (Inr responses, s2) \<Rightarrow>
             (case find (candidateQualifies env (assetType asset)) (map data responses) of
                None \<Rightarrow> (Inr None, s2)
              | Some t \<Rightarrow>
                  if tok_slug t = [] then (Inr None, s2)
                  else (Inr (Some (tok_slug t)),
                        s2\<lparr>TokenSlugMap := (TokenSlugMap s2)(identifier asset \<mapsto> tok_slug t)\<rparr>))))"
  unfolding getTokenSlug_def Let_def qualifies_lambda cacheHit_def
  by (simp split: option.splits)

lemma getCryptoToFiatRateFromCoinbase_requests:
  "requests (snd (getCryptoToFiatRateFromCoinbase env c f s)) = requests s @ [GET_exchange_rates c] \<and>
   TokenSlugMap (snd (getCryptoToFiatRateFromCoinbase env c f s)) = TokenSlugMap s"
  by (simp add: getCryptoToFiatRateFromCoinbase_def Let_def split: sum.splits option.splits)

lemma getCryptoToFiatRateFromCoinbase_Inr:
  "fst (getCryptoToFiatRateFromCoinbase env cryptoSymbol fiatCurrency s) = Inr rate \<longleftrightarrow>
     (\<exists>resp d. axios_exchange_rates env (requests s) cryptoSymbol = Inr resp \<and> status resp = 200 \<and>
        data resp = Some d \<and> cb_currency d = cryptoSymbol \<and> rates d fiatCurrency = Some rate)"
  by (auto simp: getCryptoToFiatRateFromCoinbase_def Let_def split: sum.splits option.splits)

lemma demo_all_200:
  "(\<forall>h. \<exists>r. axios_all_tokens demo_env h = Inr r \<and> status r = 200) \<and>
   (\<forall>h u. \<exists>r. axios_tokens demo_env h u = Inr r \<and> status r = 200) \<and>
   (\<forall>h c. \<exists>r. axios_exchange_rates demo_env h c = Inr r \<and> status r = 200)"
  by (simp add: demo_env_def)




lemma getTokenPriceFromCryptoCom_usd:
  "fetchCandidates env asset s = (Inr rs, s2) \<Longrightarrow>
   find (\<lambda>r. candidateQualifies env (assetType asset) (data r)) rs = Some t \<Longrightarrow>
   status t = 200 \<Longrightarrow>
   getTokenPriceFromCryptoCom env asset ''USD'' s =
     (Inr \<lparr>dailyChange = js_String_of_scalar env (usd_price_change_24h (data t)),
           fiatPrice = js_String env (js_times env (js_Number env (usd_price (data t)))
                                        (js_Number_of_string env ''1''))\<rparr>, s2)"
  by (simp add: getTokenPriceFromCryptoCom_alt)



lemma getAssetPrice_Inl:
  "fst (getTokenPriceFromCryptoCom env asset cur s) = Inl e \<Longrightarrow>
   fst (getAssetPrice env asset cur s) =
     \<lparr>assetSymbol = mainnetSymbol asset, amp_currency = cur, amp_dailyChange = '''',
      price = '''', amp_assetType = assetType asset\<rparr>"
  by (cases "getTokenPriceFromCryptoCom env asset cur s") (simp add: getAssetPrice_def)


lemma getAssetPrice_state:
  "snd (getAssetPrice env asset cur s) = snd (getTokenPriceFromCryptoCom env asset cur s)"
  by (cases "getTokenPriceFromCryptoCom env asset cur s")
     (simp add: getAssetPrice_def split: sum.splits)

lemma getTokenPriceFromCryptoCom_usd_requests:
  "\<exists>new. requests (snd (getTokenPriceFromCryptoCom env asset ''USD'' s)) = requests s @ new \<and>
         (\<forall>c. GET_exchange_rates c \<notin> set new)"
proof (cases "fetchCandidates env asset s")
  case (Pair r s2)
  have "snd (getTokenPriceFromCryptoCom env asset ''USD'' s) = s2"
    using Pair by (simp add: getTokenPriceFromCryptoCom_alt split: sum.splits option.splits)
  with fetchCandidates_state[OF Pair] show ?thesis by simp
qed

lemma getTokenPriceFromCryptoCom_TokenSlugMap:
  "TokenSlugMap (snd (getTokenPriceFromCryptoCom env asset cur s)) = TokenSlugMap s"
proof (cases "fetchCandidates env asset s")
  case (Pair r s2)
  note st = fetchCandidates_state[OF Pair]
  have "TokenSlugMap (snd (getCryptoToFiatRateFromCoinbase env ''USD'' cur s2)) = TokenSlugMap s2"
    by (simp add: getCryptoToFiatRateFromCoinbase_requests)
  then show ?thesis using Pair st
    by (auto simp: getTokenPriceFromCryptoCom_alt split: sum.splits option.splits prod.splits)
qed

lemma demo_fetch:
  "fetchCandidates demo_env demo_asset demo_state =
     (Inr [\<lparr>status = 200, data = \<lparr>tok_slug = ''crypto-com-coin'', tok_symbol = ''CRO'',
              usd_price = ''0.08'', usd_price_change_24h = ''0.01'', tags = None\<rparr>\<rparr>],
      demo_state\<lparr>requests := [GET_tokens ''crypto-com-coin'']\<rparr>)"
  by (simp add: fetchCandidates_def loadTokenSlugMap_def demo_env_def demo_asset_def
      demo_state_def arrange_def)

lemma crc_fetch:
  "fetchCandidates crc_env crc_asset crc_state =
     (Inr [crc_other, crc_finance],
      \<lparr>TokenSlugMap = Map.empty,
       tokenSlugMap = Some [\<lparr>dir_slug = ''vvs-finance'', dir_symbol = ''VVS''\<rparr>,
                            \<lparr>dir_slug = ''vvs-other'', dir_symbol = ''VVS''\<rparr>],
       requests = [GET_all_tokens, GET_tokens ''vvs-finance'', GET_tokens ''vvs-other'']\<rparr>)"
  by (simp add: fetchCandidates_def loadTokenSlugMap_def crc_env_def crc_asset_def
      crc_state_def arrange_def crc_other_def crc_finance_def)

text \<open>Nothing in the price path reads \<open>TokenSlugMap\<close>.\<close>

lemma cache_update_commute:
  "s\<lparr>TokenSlugMap := m, requests := r\<rparr> = s\<lparr>requests := r, TokenSlugMap := m\<rparr>"
  by (cases s) simp

lemma issueTokenRequests_cache_indep:
  "issueTokenRequests env xs (s\<lparr>TokenSlugMap := m\<rparr>) =
     (fst (issueTokenRequests env xs s), (snd (issueTokenRequests env xs s))\<lparr>TokenSlugMap := m\<rparr>)"
proof (induction xs arbitrary: s)
  case Nil
  then show ?case by simp
next
  case (Cons x xs)
  show ?case
    by (simp add: cache_update_commute Cons.IH Let_def split: prod.splits)
qed

lemma loadTokenSlugMap_cache_indep:
  "loadTokenSlugMap env (s\<lparr>TokenSlugMap := m\<rparr>) =
     (fst (loadTokenSlugMap env s), (snd (loadTokenSlugMap env s))\<lparr>TokenSlugMap := m\<rparr>)"
  by (simp add: loadTokenSlugMap_def Let_def split: option.splits list.splits sum.splits)

lemma fetchCandidates_cache_indep:
  "fetchCandidates env asset (s\<lparr>TokenSlugMap := m\<rparr>) =
     (fst (fetchCandidates env asset s), (snd (fetchCandidates env asset s))\<lparr>TokenSlugMap := m\<rparr>)"
proof (cases "loadTokenSlugMap env s")
  case (Pair lr s1)
  show ?thesis
  proof (cases lr)
    case (Inl e)
    with Pair show ?thesis
      by (simp add: fetchCandidates_def loadTokenSlugMap_cache_indep)
  next
    case (Inr all)
    with Pair show ?thesis
      by (simp add: fetchCandidates_def loadTokenSlugMap_cache_indep
          issueTokenRequests_cache_indep Let_def split: prod.splits)
  qed
qed

lemma getCryptoToFiatRateFromCoinbase_cache_indep:
  "getCryptoToFiatRateFromCoinbase env c f (s\<lparr>TokenSlugMap := m\<rparr>) =
     (fst (getCryptoToFiatRateFromCoinbase env c f s),
      (snd (getCryptoToFiatRateFromCoinbase env c f s))\<lparr>TokenSlugMap := m\<rparr>)"
  by (simp add: getCryptoToFiatRateFromCoinbase_def Let_def split: sum.splits option.splits)

lemma getTokenPriceFromCryptoCom_cache_indep:
  "getTokenPriceFromCryptoCom env asset cur (s\<lparr>TokenSlugMap := m\<rparr>) =
     (fst (getTokenPriceFromCryptoCom env asset cur s),
      (snd (getTokenPriceFromCryptoCom env asset cur s))\<lparr>TokenSlugMap := m\<rparr>)"
proof (cases "fetchCandidates env asset s")
  case (Pair r s2)
  then show ?thesis
    by (cases "getCryptoToFiatRateFromCoinbase env ''USD'' cur s2")
       (simp add: getTokenPriceFromCryptoCom_alt fetchCandidates_cache_indep
          getCryptoToFiatRateFromCoinbase_cache_indep split: sum.splits option.splits)
qed

lemma getAssetPrice_cache_indep:
  "getAssetPrice env asset cur (s\<lparr>TokenSlugMap := m\<rparr>) =
     (fst (getAssetPrice env asset cur s), (snd (getAssetPrice env asset cur s))\<lparr>TokenSlugMap := m\<rparr>)"
  by (cases "getTokenPriceFromCryptoCom env asset cur s")
     (simp add: getAssetPrice_def getTokenPriceFromCryptoCom_cache_indep split: sum.splits)

text \<open>The two ways through \<open>getTokenSlug\<close>.\<close>

lemma getTokenSlug_hit:
  "cacheHit s asset \<Longrightarrow> getTokenSlug env asset s = (Inr (TokenSlugMap s (identifier asset)), s)"
  by (simp add: getTokenSlug_alt)

lemma getTokenSlug_miss:
  "\<not> cacheHit s asset \<Longrightarrow> fetchCandidates env asset s = (r, s2) \<Longrightarrow>
   getTokenSlug env asset s =
     (case r of
        Inl e \<Rightarrow> (Inl e, s2)
      | Inr responses \<Rightarrow>
          (case find (candidateQualifies env (assetType asset)) (map data responses) of
             None \<Rightarrow> (Inr None, s2)
           | Some t \<Rightarrow>
               if tok_slug t = [] then (Inr None, s2)
               else (Inr (Some (tok_slug t)),
                     s2\<lparr>TokenSlugMap := (TokenSlugMap s2)(identifier asset \<mapsto> tok_slug t)\<rparr>)))"
  by (simp add: getTokenSlug_alt split: sum.splits)

lemma getTokenSlug_cases:
  "(fst (getTokenSlug env asset s) = Inr None \<and>
      TokenSlugMap (snd (getTokenSlug env asset s)) = TokenSlugMap s \<and> \<not> cacheHit s asset) \<or>
   (\<exists>e. fst (getTokenSlug env asset s) = Inl e \<and>
      TokenSlugMap (snd (getTokenSlug env asset s)) = TokenSlugMap s) \<or>
   (\<exists>slug. slug \<noteq> [] \<and> fst (getTokenSlug env asset s) = Inr (Some slug) \<and>
      TokenSlugMap (snd (getTokenSlug env asset s)) = (TokenSlugMap s)(identifier asset \<mapsto> slug))"
proof (cases "cacheHit s asset")
  case True
  then obtain c where c: "TokenSlugMap s (identifier asset) = Some c" "c \<noteq> []"
    by (auto simp: cacheHit_def split: option.splits)
  then have "(TokenSlugMap s)(identifier asset \<mapsto> c) = TokenSlugMap s"
    by (auto simp: fun_eq_iff)
  with c True show ?thesis by (simp add: getTokenSlug_hit)
next
  case False
  obtain r s2 where f: "fetchCandidates env asset s = (r, s2)"
    by (cases "fetchCandidates env asset s")
  from fetchCandidates_state[OF f] have m: "TokenSlugMap s2 = TokenSlugMap s" by simp
  show ?thesis
    using False m
    by (simp add: getTokenSlug_miss[OF False f] split: sum.splits option.splits)
qed

lemma cacheHit_after_null:
  assumes "fst (getTokenSlug env asset s) = Inr None"
  shows "TokenSlugMap (snd (getTokenSlug env asset s)) = TokenSlugMap s \<and>
         \<not> cacheHit (snd (getTokenSlug env asset s)) asset"
  using getTokenSlug_cases[of env asset s] assms
  by (auto simp: cacheHit_def)

lemma crc_getTokenSlug:
  "fst (getTokenSlug crc_env crc_asset crc_state) = Inr (Some ''vvs-finance'')"
proof -
  have miss: "\<not> cacheHit crc_state crc_asset"
    by (simp add: cacheHit_def crc_state_def)
  have "find (candidateQualifies crc_env (assetType crc_asset)) (map data [crc_other, crc_finance])
           = Some (data crc_finance)"
    by (simp add: candidateQualifies_def crc_other_def crc_finance_def crc_asset_def crc_env_def)
  moreover have "tok_slug (data crc_finance) = ''vvs-finance''"
    by (simp add: crc_finance_def)
  ultimately show ?thesis
    by (simp add: getTokenSlug_miss[OF miss crc_fetch])
qed


section \<open>Price resolver: the properties\<close>




text \<open>
  C5, as stated, fails: \<open>getAssetPrice\<close> goes through \<open>getTokenPriceFromCryptoCom\<close>,
  which never reads the slug cache. With the slug of the asset cached and the directory
  memoised, a call still issues the per-candidate token-price fetch.
\<close>

theorem cache_hit_counterexample:
  "TokenSlugMap demo_state (identifier demo_asset) = Some ''crypto-com-coin'' \<and>
   requests demo_state = [] \<and>
   requests (snd (getAssetPrice demo_env demo_asset ''USD'' demo_state)) =
     [GET_tokens ''crypto-com-coin'']"
  by (simp add: getAssetPrice_state getTokenPriceFromCryptoCom_alt demo_fetch
      candidateQualifies_def)
     (simp add: demo_state_def demo_asset_def)

text \<open>
  C5, amended. When the slug cache holds a non-empty slug for the asset's identifier,
  \<open>getTokenSlug\<close> returns that slug and leaves the state as it is: no request is issued,
  neither for the directory nor for any candidate. \<open>getAssetPrice\<close> does not consult the
  cache: its result and the requests it issues are the same whatever the cache holds.
\<close>

theorem cached_slug_no_network:
  "(\<forall>slug. TokenSlugMap s (identifier asset) = Some slug \<and> slug \<noteq> [] \<longrightarrow>
       getTokenSlug env asset s = (Inr (Some slug), s)) \<and>
   fst (getAssetPrice env asset currency (s\<lparr>TokenSlugMap := m\<rparr>)) =
     fst (getAssetPrice env asset currency s) \<and>
   requests (snd (getAssetPrice env asset currency (s\<lparr>TokenSlugMap := m\<rparr>))) =
     requests (snd (getAssetPrice env asset currency s))"
  by (simp add: getTokenSlug_alt cacheHit_def getAssetPrice_cache_indep)

theorem cached_slug_no_network_witness:
  "getTokenSlug demo_env demo_asset demo_state = (Inr (Some ''crypto-com-coin''), demo_state)"
proof -
  have "TokenSlugMap demo_state (identifier demo_asset) = Some ''crypto-com-coin'' \<and>
        ''crypto-com-coin'' \<noteq> []"
    by (simp add: demo_state_def demo_asset_def)
  with cached_slug_no_network[of demo_state demo_asset demo_env] show ?thesis by blast
qed


text \<open>
  C6, as stated, fails in its last part: rule (b) tests the symbol the feed reports for
  the candidate, case-sensitively, not the asset's symbol. For a CRC-20 asset whose
  symbol \<open>VVS\<close> is whitelisted, on a feed whose responses all have status 200 and report
  \<open>vvs\<close>, both candidates are fetched, none qualifies, and \<open>getTokenSlug\<close> returns
  \<open>null\<close>.
\<close>

theorem whitelisted_asset_symbol_counterexample:
  "assetType crc_asset = CRC_20_TOKEN \<and>
   symbol crc_asset \<in> set (whitelistedCRC20Tokens lowercase_env) \<and>
   mainnetSymbol crc_asset \<in> set (whitelistedCRC20Tokens lowercase_env) \<and>
   requests (snd (getTokenSlug lowercase_env crc_asset crc_state)) =
     [GET_all_tokens, GET_tokens ''vvs-finance'', GET_tokens ''vvs-other''] \<and>
   fst (getTokenSlug lowercase_env crc_asset crc_state) = Inr None"
  by (simp add: getTokenSlug_def fetchCandidates_def loadTokenSlugMap_def arrange_def
      nativeTokenSlug_def lowercase_env_def crc_env_def crc_asset_def crc_state_def Let_def)

text \<open>
  C6, amended. In \<open>getTokenSlug\<close> and in \<open>getTokenPriceFromCryptoCom\<close> the selected
  candidate is the first fetched response, in arrival order, that qualifies under rules
  (a) to (d): the result of either method is a function of that first qualifying
  candidate, and there is none exactly when no fetched candidate qualifies. A candidate
  without a tag list qualifies exactly as one with an empty tag list. A candidate whose
  own symbol is in the CRC-20 whitelist qualifies for a CRC-20 asset whatever its slug
  and tags are, so a CRC-20 asset with such a fetched candidate resolves to the slug of
  a qualifying candidate (the fetched slugs being non-empty).
\<close>

theorem candidate_selection:
  "(\<forall>rs s2. \<not> cacheHit s asset \<and> fetchCandidates env asset s = (Inr rs, s2) \<longrightarrow>
       fst (getTokenSlug env asset s) =
         Inr (case find (candidateQualifies env (assetType asset)) (map data rs) of
                None \<Rightarrow> None
              | Some t \<Rightarrow> if tok_slug t = [] then None else Some (tok_slug t))) \<and>
   (\<forall>rs s2. fetchCandidates env asset s = (Inr rs, s2) \<longrightarrow>
       fst (getTokenPriceFromCryptoCom env asset fiatCurrency s) =
         (case find (\<lambda>r. candidateQualifies env (assetType asset) (data r)) rs of
            None \<Rightarrow> Inl (Error (''Couldn't find a valid slug name for '' @ mainnetSymbol asset))
          | Some r \<Rightarrow>
              if status r \<noteq> 200 then Inl (Error ''Could not fetch token price.'')
              else
                (case fst (if fiatCurrency \<noteq> ''USD''
                           then getCryptoToFiatRateFromCoinbase env ''USD'' fiatCurrency s2
                           else (Inr ''1'', s2)) of
                   Inl e \<Rightarrow> Inl e
                 | Inr usdToFiatRate \<Rightarrow>
                     Inr \<lparr>dailyChange = js_String_of_scalar env (usd_price_change_24h (data r)),
                          fiatPrice = js_String env
                            (js_times env (js_Number env (usd_price (data r)))
                                          (js_Number_of_string env usdToFiatRate))\<rparr>))) \<and>
   (\<forall>xs t. find (candidateQualifies env aT) xs = Some t \<longleftrightarrow>
       (\<exists>i<length xs. xs ! i = t \<and> candidateQualifies env aT t \<and>
          (\<forall>j<i. \<not> candidateQualifies env aT (xs ! j)))) \<and>
   (\<forall>xs. find (candidateQualifies env aT) xs = None \<longleftrightarrow>
       (\<forall>x\<in>set xs. \<not> candidateQualifies env aT x)) \<and>
   (\<forall>t. tags t = None \<longrightarrow>
       candidateQualifies env aT t = candidateQualifies env aT (t\<lparr>tags := Some []\<rparr>)) \<and>
   (\<forall>t. aT = CRC_20_TOKEN \<and> tok_symbol t \<in> set (whitelistedCRC20Tokens env) \<longrightarrow>
       candidateQualifies env aT t) \<and>
   (\<forall>rs s2. \<not> cacheHit s asset \<and> fetchCandidates env asset s = (Inr rs, s2) \<and>
       assetType asset = CRC_20_TOKEN \<and>
       (\<exists>r\<in>set rs. tok_symbol (data r) \<in> set (whitelistedCRC20Tokens env)) \<and>
       (\<forall>r\<in>set rs. tok_slug (data r) \<noteq> []) \<longrightarrow>
       (\<exists>r\<in>set rs. candidateQualifies env (assetType asset) (data r) \<and>
          fst (getTokenSlug env asset s) = Inr (Some (tok_slug (data r)))))"
proof -
  have a: "\<forall>rs s2. \<not> cacheHit s asset \<and> fetchCandidates env asset s = (Inr rs, s2) \<longrightarrow>
       fst (getTokenSlug env asset s) =
         Inr (case find (candidateQualifies env (assetType asset)) (map data rs) of
                None \<Rightarrow> None
              | Some t \<Rightarrow> if tok_slug t = [] then None else Some (tok_slug t))"
  proof (intro allI impI, elim conjE)
    fix rs s2
    assume h: "\<not> cacheHit s asset" "fetchCandidates env asset s = (Inr rs, s2)"
    show "fst (getTokenSlug env asset s) =
         Inr (case find (candidateQualifies env (assetType asset)) (map data rs) of
                None \<Rightarrow> None
              | Some t \<Rightarrow> if tok_slug t = [] then None else Some (tok_slug t))"
      by (simp add: getTokenSlug_miss[OF h] split: option.splits)
  qed
  have b: "\<forall>rs s2. fetchCandidates env asset s = (Inr rs, s2) \<longrightarrow>
       fst (getTokenPriceFromCryptoCom env asset fiatCurrency s) =
         (case find (\<lambda>r. candidateQualifies env (assetType asset) (data r)) rs of
            None \<Rightarrow> Inl (Error (''Couldn't find a valid slug name for '' @ mainnetSymbol asset))
          | Some r \<Rightarrow>
              if status r \<noteq> 200 then Inl (Error ''Could not fetch token price.'')
              else
                (case fst (if fiatCurrency \<noteq> ''USD''
                           then getCryptoToFiatRateFromCoinbase env ''USD'' fiatCurrency s2
                           else (Inr ''1'', s2)) of
                   Inl e \<Rightarrow> Inl e
                 | Inr usdToFiatRate \<Rightarrow>
                     Inr \<lparr>dailyChange = js_String_of_scalar env (usd_price_change_24h (data r)),
                          fiatPrice = js_String env
                            (js_times env (js_Number env (usd_price (data r)))
                                          (js_Number_of_string env usdToFiatRate))\<rparr>))"
    by (simp add: getTokenPriceFromCryptoCom_alt split: option.splits prod.splits sum.splits)
  have c: "\<forall>xs t. find (candidateQualifies env aT) xs = Some t \<longleftrightarrow>
       (\<exists>i<length xs. xs ! i = t \<and> candidateQualifies env aT t \<and>
          (\<forall>j<i. \<not> candidateQualifies env aT (xs ! j)))"
    by (auto simp: find_Some_iff)
  have d: "\<forall>xs. find (candidateQualifies env aT) xs = None \<longleftrightarrow>
       (\<forall>x\<in>set xs. \<not> candidateQualifies env aT x)"
    by (auto simp: find_None_iff)
  have e: "\<forall>t. tags t = None \<longrightarrow>
       candidateQualifies env aT t = candidateQualifies env aT (t\<lparr>tags := Some []\<rparr>)"
    by (simp add: candidateQualifies_def)
  have f: "\<forall>t. aT = CRC_20_TOKEN \<and> tok_symbol t \<in> set (whitelistedCRC20Tokens env) \<longrightarrow>
       candidateQualifies env aT t"
    by (simp add: candidateQualifies_def)
  have g: "\<forall>rs s2. \<not> cacheHit s asset \<and> fetchCandidates env asset s = (Inr rs, s2) \<and>
       assetType asset = CRC_20_TOKEN \<and>
       (\<exists>r\<in>set rs. tok_symbol (data r) \<in> set (whitelistedCRC20Tokens env)) \<and>
       (\<forall>r\<in>set rs. tok_slug (data r) \<noteq> []) \<longrightarrow>
       (\<exists>r\<in>set rs. candidateQualifies env (assetType asset) (data r) \<and>
          fst (getTokenSlug env asset s) = Inr (Some (tok_slug (data r))))"
  proof (intro allI impI, elim conjE bexE)
    fix rs s2 r
    assume h: "\<not> cacheHit s asset" "fetchCandidates env asset s = (Inr rs, s2)"
      and crc: "assetType asset = CRC_20_TOKEN"
      and r: "r \<in> set rs" "tok_symbol (data r) \<in> set (whitelistedCRC20Tokens env)"
      and slugs: "\<forall>r\<in>set rs. tok_slug (data r) \<noteq> []"
    from crc r(2) have "candidateQualifies env (assetType asset) (data r)"
      by (simp add: candidateQualifies_def)
    with r(1) have "find (candidateQualifies env (assetType asset)) (map data rs) \<noteq> None"
      by (auto simp: find_None_iff)
    then obtain t where t: "find (candidateQualifies env (assetType asset)) (map data rs) = Some t"
      by blast
    then have "t \<in> set (map data rs)" "candidateQualifies env (assetType asset) t"
      by (auto simp: find_Some_iff)
    then obtain w where w: "w \<in> set rs" "t = data w" by auto
    with slugs have "tok_slug t \<noteq> []" by simp
    with t have "fst (getTokenSlug env asset s) = Inr (Some (tok_slug t))"
      by (simp add: getTokenSlug_miss[OF h])
    with w \<open>candidateQualifies env (assetType asset) t\<close>
    show "\<exists>r\<in>set rs. candidateQualifies env (assetType asset) (data r) \<and>
          fst (getTokenSlug env asset s) = Inr (Some (tok_slug (data r)))"
      by blast
  qed
  from a b c d e f g show ?thesis by (intro conjI)
qed

theorem candidate_selection_witness:
  "fst (getTokenSlug crc_env crc_asset crc_state) = Inr (Some ''vvs-finance'')"
proof -
  have miss: "\<not> cacheHit crc_state crc_asset"
    by (simp add: cacheHit_def crc_state_def)
  have q: "find (candidateQualifies crc_env (assetType crc_asset))
             (map data [crc_other, crc_finance]) = Some (data crc_finance)"
    by (simp add: candidateQualifies_def crc_other_def crc_finance_def crc_asset_def crc_env_def)
  have slug: "tok_slug (data crc_finance) = ''vvs-finance''"
    by (simp add: crc_finance_def)
  note sel = candidate_selection[of crc_state crc_asset crc_env, THEN conjunct1, rule_format,
      OF conjI[OF miss crc_fetch]]
  show ?thesis
    by (simp only: sel q) (simp add: slug)
qed


text \<open>
  C8. A call \<open>getAssetPrice(asset, "USD")\<close> issues no exchange-rate request; when a
  candidate is selected and its status is 200, the price is
  \<open>String(Number(usd_price) * Number('1'))\<close>. For any currency, an exchange-rate request
  among the requests of a call means the currency is not \<open>"USD"\<close>.
\<close>

theorem usd_never_asks_exchange_rates:
  "(\<exists>new. requests (snd (getAssetPrice env asset ''USD'' s)) = requests s @ new \<and>
          (\<forall>c. GET_exchange_rates c \<notin> set new)) \<and>
   (\<forall>rs s2 t. fetchCandidates env asset s = (Inr rs, s2) \<and>
        find (\<lambda>r. candidateQualifies env (assetType asset) (data r)) rs = Some t \<and>
        status t = 200 \<longrightarrow>
        fst (getAssetPrice env asset ''USD'' s) =
          priced asset ''USD''
            (js_String env (js_times env (js_Number env (usd_price (data t)))
                                         (js_Number_of_string env ''1'')))
            (js_String_of_scalar env (usd_price_change_24h (data t)))) \<and>
   (\<forall>currency new c. requests (snd (getAssetPrice env asset currency s)) = requests s @ new \<and>
        GET_exchange_rates c \<in> set new \<longrightarrow> currency \<noteq> ''USD'')"
proof -
  have a: "\<exists>new. requests (snd (getAssetPrice env asset ''USD'' s)) = requests s @ new \<and>
          (\<forall>c. GET_exchange_rates c \<notin> set new)"
    by (simp only: getAssetPrice_state getTokenPriceFromCryptoCom_usd_requests)
  have b: "\<forall>rs s2 t. fetchCandidates env asset s = (Inr rs, s2) \<and>
        find (\<lambda>r. candidateQualifies env (assetType asset) (data r)) rs = Some t \<and>
        status t = 200 \<longrightarrow>
        fst (getAssetPrice env asset ''USD'' s) =
          priced asset ''USD''
            (js_String env (js_times env (js_Number env (usd_price (data t)))
                                         (js_Number_of_string env ''1'')))
            (js_String_of_scalar env (usd_price_change_24h (data t)))"
  proof (intro allI impI, elim conjE)
    fix rs s2 t
    assume "fetchCandidates env asset s = (Inr rs, s2)"
      and "find (\<lambda>r. candidateQualifies env (assetType asset) (data r)) rs = Some t"
      and "status t = 200"
    from getTokenPriceFromCryptoCom_usd[OF this]
    show "fst (getAssetPrice env asset ''USD'' s) =
          priced asset ''USD''
            (js_String env (js_times env (js_Number env (usd_price (data t)))
                                         (js_Number_of_string env ''1'')))
            (js_String_of_scalar env (usd_price_change_24h (data t)))"
      by (simp add: getAssetPrice_def priced_def)
  qed
  have c: "\<forall>currency new c. requests (snd (getAssetPrice env asset currency s)) = requests s @ new \<and>
        GET_exchange_rates c \<in> set new \<longrightarrow> currency \<noteq> ''USD''"
    using a by auto
  from a b c show ?thesis by (intro conjI)
qed

theorem usd_never_asks_exchange_rates_witness:
  "fst (getAssetPrice demo_env demo_asset ''USD'' demo_state) =
     \<lparr>assetSymbol = ''CRO'', amp_currency = ''USD'', amp_dailyChange = ''0.01'',
      price = ''0.08*1'', amp_assetType = TENDERMINT\<rparr>"
proof -
  have q: "find (\<lambda>r. candidateQualifies demo_env (assetType demo_asset) (data r))
             [\<lparr>status = 200, data = \<lparr>tok_slug = ''crypto-com-coin'', tok_symbol = ''CRO'',
              usd_price = ''0.08'', usd_price_change_24h = ''0.01'', tags = None\<rparr>\<rparr>]
           = Some \<lparr>status = 200, data = \<lparr>tok_slug = ''crypto-com-coin'', tok_symbol = ''CRO'',
              usd_price = ''0.08'', usd_price_change_24h = ''0.01'', tags = None\<rparr>\<rparr>"
    by (simp add: candidateQualifies_def)
  from usd_never_asks_exchange_rates[of demo_env demo_asset demo_state] demo_fetch q
  have "fst (getAssetPrice demo_env demo_asset ''USD'' demo_state) =
          priced demo_asset ''USD''
            (js_String demo_env (js_times demo_env (js_Number demo_env ''0.08'')
                                         (js_Number_of_string demo_env ''1'')))
            (js_String_of_scalar demo_env ''0.01'')"
    by (elim conjE allE[where x = "[\<lparr>status = 200, data = \<lparr>tok_slug = ''crypto-com-coin'', tok_symbol = ''CRO'',
              usd_price = ''0.08'', usd_price_change_24h = ''0.01'', tags = None\<rparr>\<rparr>]"]) auto
  then show ?thesis by (simp add: priced_def demo_asset_def demo_env_def)
qed


text \<open>
  C9. \<open>getTokenSlug\<close> either leaves the slug cache as it is or stores, under the asset's
  identifier, the non-empty slug it returns. With no qualifying candidate it returns
  \<open>null\<close> and stores nothing; after a \<open>null\<close> the asset is still uncached, and the next
  call consults the feed again and returns what it then finds. Every entry of the cache
  is a non-empty slug, an invariant \<open>getTokenSlug\<close> and \<open>getAssetPrice\<close> keep. After a
  slug was returned, the next call returns the same slug and changes nothing, issuing no
  request, whatever the feed would answer.
\<close>

theorem slug_cache_discipline:
  "(TokenSlugMap (snd (getTokenSlug env asset s)) = TokenSlugMap s \<or>
      (\<exists>slug. slug \<noteq> [] \<and> fst (getTokenSlug env asset s) = Inr (Some slug) \<and>
         TokenSlugMap (snd (getTokenSlug env asset s)) =
           (TokenSlugMap s)(identifier asset \<mapsto> slug))) \<and>
   (\<forall>rs s2. \<not> cacheHit s asset \<and> fetchCandidates env asset s = (Inr rs, s2) \<and>
        find (candidateQualifies env (assetType asset)) (map data rs) = None \<longrightarrow>
        getTokenSlug env asset s = (Inr None, s2) \<and> TokenSlugMap s2 = TokenSlugMap s) \<and>
   (fst (getTokenSlug env asset s) = Inr None \<longrightarrow>
        TokenSlugMap (snd (getTokenSlug env asset s)) = TokenSlugMap s \<and>
        \<not> cacheHit (snd (getTokenSlug env asset s)) asset) \<and>
   ((\<forall>k v. TokenSlugMap s k = Some v \<longrightarrow> v \<noteq> []) \<longrightarrow>
        (\<forall>k v. TokenSlugMap (snd (getTokenSlug env asset s)) k = Some v \<longrightarrow> v \<noteq> []) \<and>
        (\<forall>k v. TokenSlugMap (snd (getAssetPrice env asset currency s)) k = Some v \<longrightarrow> v \<noteq> [])) \<and>
   (\<forall>rs s3 t. fst (getTokenSlug env asset s) = Inr None \<and>
        fetchCandidates env' asset (snd (getTokenSlug env asset s)) = (Inr rs, s3) \<and>
        find (candidateQualifies env' (assetType asset)) (map data rs) = Some t \<and>
        tok_slug t \<noteq> [] \<longrightarrow>
        fst (getTokenSlug env' asset (snd (getTokenSlug env asset s))) = Inr (Some (tok_slug t))) \<and>
   (\<forall>slug. fst (getTokenSlug env asset s) = Inr (Some slug) \<longrightarrow>
        getTokenSlug env' asset (snd (getTokenSlug env asset s)) =
          (Inr (Some slug), snd (getTokenSlug env asset s)))"
proof -
  let ?s' = "snd (getTokenSlug env asset s)"
  note cases = getTokenSlug_cases[of env asset s]
  have a: "TokenSlugMap ?s' = TokenSlugMap s \<or>
      (\<exists>slug. slug \<noteq> [] \<and> fst (getTokenSlug env asset s) = Inr (Some slug) \<and>
         TokenSlugMap ?s' = (TokenSlugMap s)(identifier asset \<mapsto> slug))"
    using cases by blast
  have b: "\<forall>rs s2. \<not> cacheHit s asset \<and> fetchCandidates env asset s = (Inr rs, s2) \<and>
        find (candidateQualifies env (assetType asset)) (map data rs) = None \<longrightarrow>
        getTokenSlug env asset s = (Inr None, s2) \<and> TokenSlugMap s2 = TokenSlugMap s"
  proof (intro allI impI, elim conjE)
    fix rs s2
    assume h: "\<not> cacheHit s asset" "fetchCandidates env asset s = (Inr rs, s2)"
      "find (candidateQualifies env (assetType asset)) (map data rs) = None"
    from fetchCandidates_state[OF h(2)] h(3) getTokenSlug_miss[OF h(1) h(2)]
    show "getTokenSlug env asset s = (Inr None, s2) \<and> TokenSlugMap s2 = TokenSlugMap s"
      by simp
  qed
  have c: "fst (getTokenSlug env asset s) = Inr None \<longrightarrow>
        TokenSlugMap ?s' = TokenSlugMap s \<and> \<not> cacheHit ?s' asset"
    using cacheHit_after_null by blast
  have d: "(\<forall>k v. TokenSlugMap s k = Some v \<longrightarrow> v \<noteq> []) \<longrightarrow>
        (\<forall>k v. TokenSlugMap ?s' k = Some v \<longrightarrow> v \<noteq> []) \<and>
        (\<forall>k v. TokenSlugMap (snd (getAssetPrice env asset currency s)) k = Some v \<longrightarrow> v \<noteq> [])"
  proof (intro impI conjI)
    assume inv: "\<forall>k v. TokenSlugMap s k = Some v \<longrightarrow> v \<noteq> []"
    from a show "\<forall>k v. TokenSlugMap ?s' k = Some v \<longrightarrow> v \<noteq> []"
    proof
      assume "TokenSlugMap ?s' = TokenSlugMap s"
      with inv show ?thesis by simp
    next
      assume "\<exists>slug. slug \<noteq> [] \<and> fst (getTokenSlug env asset s) = Inr (Some slug) \<and>
         TokenSlugMap ?s' = (TokenSlugMap s)(identifier asset \<mapsto> slug)"
      then obtain slug where "slug \<noteq> []"
        "TokenSlugMap ?s' = (TokenSlugMap s)(identifier asset \<mapsto> slug)" by blast
      with inv show ?thesis by (auto split: if_splits)
    qed
    from inv show "\<forall>k v. TokenSlugMap (snd (getAssetPrice env asset currency s)) k = Some v \<longrightarrow> v \<noteq> []"
      by (simp add: getAssetPrice_state getTokenPriceFromCryptoCom_TokenSlugMap)
  qed
  have e: "\<forall>rs s3 t. fst (getTokenSlug env asset s) = Inr None \<and>
        fetchCandidates env' asset ?s' = (Inr rs, s3) \<and>
        find (candidateQualifies env' (assetType asset)) (map data rs) = Some t \<and>
        tok_slug t \<noteq> [] \<longrightarrow>
        fst (getTokenSlug env' asset ?s') = Inr (Some (tok_slug t))"
  proof (intro allI impI, elim conjE)
    fix rs s3 t
    assume h: "fst (getTokenSlug env asset s) = Inr None"
      "fetchCandidates env' asset ?s' = (Inr rs, s3)"
      "find (candidateQualifies env' (assetType asset)) (map data rs) = Some t"
      "tok_slug t \<noteq> []"
    from cacheHit_after_null[OF h(1)] have miss: "\<not> cacheHit ?s' asset" by simp
    from getTokenSlug_miss[OF miss h(2)] h(3) h(4)
    show "fst (getTokenSlug env' asset ?s') = Inr (Some (tok_slug t))" by simp
  qed
  have f: "\<forall>slug. fst (getTokenSlug env asset s) = Inr (Some slug) \<longrightarrow>
        getTokenSlug env' asset ?s' = (Inr (Some slug), ?s')"
  proof (intro allI impI)
    fix slug
    assume h: "fst (getTokenSlug env asset s) = Inr (Some slug)"
    have "TokenSlugMap ?s' (identifier asset) = Some slug \<and> slug \<noteq> []"
    proof (cases "cacheHit s asset")
      case True
      with h show ?thesis
        by (auto simp: getTokenSlug_hit cacheHit_def split: option.splits)
    next
      case False
      with cases h show ?thesis by auto
    qed
    then have "cacheHit ?s' asset" by (simp add: cacheHit_def)
    from getTokenSlug_hit[OF this, of env']
      \<open>TokenSlugMap ?s' (identifier asset) = Some slug \<and> slug \<noteq> []\<close>
    show "getTokenSlug env' asset ?s' = (Inr (Some slug), ?s')" by simp
  qed
  from a b c d e f show ?thesis by (intro conjI)
qed

theorem slug_cache_discipline_witness:
  "getTokenSlug crc_env crc_asset (snd (getTokenSlug crc_env crc_asset crc_state)) =
     (Inr (Some ''vvs-finance''), snd (getTokenSlug crc_env crc_asset crc_state))"
  using slug_cache_discipline[of crc_env crc_asset crc_state "''USD''" crc_env] crc_getTokenSlug
  by blast


text \<open>
  C10. \<open>getCryptoToFiatRateFromCoinbase\<close> returns a rate exactly when the response has
  status 200, its \<open>data.currency\<close> is the requested symbol and \<open>data.rates\<close> has an
  entry for the requested fiat currency, the rate being that entry; it throws exactly in
  every other case. Hence a non-USD \<open>getAssetPrice\<close> can give the empty-price record
  although every feed response has status 200, as it does on the concrete feed above
  for \<open>EUR\<close>.
\<close>

theorem coinbase_rate_iff:
  "(fst (getCryptoToFiatRateFromCoinbase env cryptoSymbol fiatCurrency s) = Inr rate \<longleftrightarrow>
     (\<exists>resp d. axios_exchange_rates env (requests s) cryptoSymbol = Inr resp \<and> status resp = 200 \<and>
        data resp = Some d \<and> cb_currency d = cryptoSymbol \<and> rates d fiatCurrency = Some rate)) \<and>
   ((\<exists>e. fst (getCryptoToFiatRateFromCoinbase env cryptoSymbol fiatCurrency s) = Inl e) \<longleftrightarrow>
     \<not> (\<exists>resp d r. axios_exchange_rates env (requests s) cryptoSymbol = Inr resp \<and> status resp = 200 \<and>
        data resp = Some d \<and> cb_currency d = cryptoSymbol \<and> rates d fiatCurrency = Some r)) \<and>
   ((\<forall>h. \<exists>r. axios_all_tokens demo_env h = Inr r \<and> status r = 200) \<and>
    (\<forall>h u. \<exists>r. axios_tokens demo_env h u = Inr r \<and> status r = 200) \<and>
    (\<forall>h c. \<exists>r. axios_exchange_rates demo_env h c = Inr r \<and> status r = 200) \<and>
    fst (getAssetPrice demo_env demo_asset ''EUR'' demo_state) = noPrice demo_asset ''EUR'')"
proof -
  let ?res = "fst (getCryptoToFiatRateFromCoinbase env cryptoSymbol fiatCurrency s)"
  have "(\<exists>e. ?res = Inl e) \<longleftrightarrow> \<not> (\<exists>r. ?res = Inr r)"
    by (cases ?res) auto
  then have general:
    "(?res = Inr rate \<longleftrightarrow>
     (\<exists>resp d. axios_exchange_rates env (requests s) cryptoSymbol = Inr resp \<and> status resp = 200 \<and>
        data resp = Some d \<and> cb_currency d = cryptoSymbol \<and> rates d fiatCurrency = Some rate)) \<and>
   ((\<exists>e. ?res = Inl e) \<longleftrightarrow>
     \<not> (\<exists>resp d r. axios_exchange_rates env (requests s) cryptoSymbol = Inr resp \<and> status resp = 200 \<and>
        data resp = Some d \<and> cb_currency d = cryptoSymbol \<and> rates d fiatCurrency = Some r))"
    by (simp only: getCryptoToFiatRateFromCoinbase_Inr) blast
  have "fst (getTokenPriceFromCryptoCom demo_env demo_asset ''EUR'' demo_state) =
             Inl (TypeError ''Could not find requested market price info from Coinbase'')"
    by (simp add: getTokenPriceFromCryptoCom_alt demo_fetch candidateQualifies_def
        getCryptoToFiatRateFromCoinbase_def)
       (simp add: demo_env_def)
  then have "fst (getAssetPrice demo_env demo_asset ''EUR'' demo_state) = noPrice demo_asset ''EUR''"
    by (simp add: getAssetPrice_Inl noPrice_def)
  with general demo_all_200 show ?thesis by blast
qed

theorem coinbase_rate_iff_witness:
  "fst (getCryptoToFiatRateFromCoinbase demo_env ''USD'' ''EUR'' demo_state) \<noteq> Inr ''0.92''"
proof -
  have "\<not> (\<exists>resp d. axios_exchange_rates demo_env (requests demo_state) ''USD'' = Inr resp \<and>
            status resp = 200 \<and> data resp = Some d \<and> cb_currency d = ''USD'' \<and>
            rates d ''EUR'' = Some ''0.92'')"
    by (auto simp: demo_env_def)
  with coinbase_rate_iff[of demo_env "''USD''" "''EUR''" demo_state "''0.92''"]
  show ?thesis by blast
qed

section \<open>Wallet creation page: auxiliary facts\<close>

declare pollLoop.simps [simp del]

lemma afterPolls_0: "afterPolls env 0 s = s"
  by (simp add: afterPolls_def)

lemma afterPolls_Suc: "afterPolls env (Suc k) s = afterPolls env k (delay env 100 s)"
  by (simp add: afterPolls_def funpow_swap1)

lemma delay_fields:
  "trace (delay env ms s) = trace s @ [Delay ms]"
  "page_state.more (delay env ms s) = page_state.more s"
  "waitFlag (delay env ms s) \<Longrightarrow> waitFlag s"
  by (simp_all add: delay_def suspend_def emit_def)

lemma afterPolls_fields:
  "trace (afterPolls env k s) = trace s @ replicate k (Delay 100) \<and>
   page_state.more (afterPolls env k s) = page_state.more s"
proof (induction k arbitrary: s)
  case 0
  show ?case by (simp add: afterPolls_0)
next
  case (Suc k)
  show ?case
    by (simp add: afterPolls_Suc Suc.IH delay_fields replicate_append_same)
qed

lemma pollLoop_afterPolls:
  "\<exists>n. n \<le> 600 - i \<and> (i < 600 \<longrightarrow> 1 \<le> n) \<and>
       pollLoop env i s = afterPolls env n s \<and>
       (\<forall>k. 0 < k \<and> k < n \<longrightarrow> waitFlag (afterPolls env k s)) \<and>
       (n < 600 - i \<longrightarrow> \<not> waitFlag (afterPolls env n s))"
proof (induction env i s rule: pollLoop.induct)
  case (1 env i s)
  show ?case
  proof (cases "i < 600")
    case False
    then have "pollLoop env i s = s" by (simp add: pollLoop.simps)
    with False show ?thesis
      by (intro exI[where x = 0]) (simp add: afterPolls_0)
  next
    case True
    let ?s1 = "delay env 100 s"
    show ?thesis
    proof (cases "waitFlag ?s1")
      case False
      with True have "pollLoop env i s = ?s1" by (simp add: pollLoop.simps[of env i s] Let_def)
      with True False show ?thesis
        by (intro exI[where x = 1]) (simp add: afterPolls_Suc afterPolls_0)
    next
      case flag: True
      with True have eq: "pollLoop env i s = pollLoop env (i + 1) ?s1"
        by (simp add: pollLoop.simps[of env i s] Let_def)
      from "1.IH"[OF True refl] flag obtain n where n:
        "n \<le> 600 - (i + 1)" "pollLoop env (i + 1) ?s1 = afterPolls env n ?s1"
        "\<forall>k. 0 < k \<and> k < n \<longrightarrow> waitFlag (afterPolls env k ?s1)"
        "n < 600 - (i + 1) \<longrightarrow> \<not> waitFlag (afterPolls env n ?s1)"
        by auto
      have "\<forall>k. 0 < k \<and> k < Suc n \<longrightarrow> waitFlag (afterPolls env k s)"
      proof (intro allI impI)
        fix k assume k: "0 < k \<and> k < Suc n"
        then obtain j where j: "k = Suc j" by (cases k) auto
        show "waitFlag (afterPolls env k s)"
        proof (cases j)
          case 0
          with j flag show ?thesis by (simp add: afterPolls_Suc afterPolls_0)
        next
          case (Suc j')
          with j k have "0 < j \<and> j < n" by simp
          with n(3) have "waitFlag (afterPolls env j (delay env 100 s))" by blast
          with j show ?thesis by (simp only: afterPolls_Suc)
        qed
      qed
      with n True eq show ?thesis
        by (intro exI[where x = "Suc n"]) (auto simp: afterPolls_Suc)
    qed
  qed
qed

lemma pollLoop_shape:
  "\<exists>n. 1 \<le> n \<and> n \<le> 600 \<and> trace (pollLoop env 0 s) = trace s @ replicate n (Delay 100) \<and>
       page_state.more (pollLoop env 0 s) = page_state.more s"
proof -
  from pollLoop_afterPolls[of 0 env s] obtain n where
    "n \<le> 600" "1 \<le> n" "pollLoop env 0 s = afterPolls env n s" by auto
  then show ?thesis using afterPolls_fields[of env n s] by auto
qed

lemma pollCount_eq:
  "pollLoop env 0 s = afterPolls env n s \<Longrightarrow> pollCount env s = n"
  by (simp add: pollCount_def afterPolls_fields)

lemma pollLoop_count:
  "(let n = pollCount env s in
      1 \<le> n \<and> n \<le> 600 \<and> pollLoop env 0 s = afterPolls env n s \<and>
      trace (pollLoop env 0 s) = trace s @ replicate n (Delay 100) \<and>
      (\<forall>k. 0 < k \<and> k < n \<longrightarrow> waitFlag (afterPolls env k s)) \<and>
      (n < 600 \<longrightarrow> \<not> waitFlag (afterPolls env n s)))"
proof -
  from pollLoop_afterPolls[of 0 env s] obtain n where n:
    "n \<le> 600" "1 \<le> n" "pollLoop env 0 s = afterPolls env n s"
    "\<forall>k. 0 < k \<and> k < n \<longrightarrow> waitFlag (afterPolls env k s)"
    "n < 600 \<longrightarrow> \<not> waitFlag (afterPolls env n s)"
    by auto
  from pollCount_eq[OF n(3)] have "pollCount env s = n" .
  with n afterPolls_fields[of env n s] show ?thesis by (simp add: Let_def)
qed

lemma run_fields_of_more:
  "page_state.more (x::run_state) = page_state.more y \<Longrightarrow> wallet x = wallet y \<and> assets x = assets y"
  by (cases x, cases y) simp

lemma pollLoop_run_fields:
  "wallet (pollLoop env 0 (s::run_state)) = wallet s" "assets (pollLoop env 0 (s::run_state)) = assets s"
  using pollLoop_shape[of env s] run_fields_of_more[of "pollLoop env 0 s" s] by auto

lemma emit_trace: "trace (emit ev s) = trace s @ [ev]"
  by (simp add: emit_def)

lemma suspend_trace: "trace (suspend env s) = trace s"
  by (simp add: suspend_def)

lemma emit_run_fields:
  "wallet (emit ev (s::run_state)) = wallet s" "assets (emit ev (s::run_state)) = assets s"
  by (simp_all add: emit_def)

lemma suspend_run_fields:
  "wallet (suspend env (s::run_state)) = wallet s" "assets (suspend env (s::run_state)) = assets s"
  by (simp_all add: suspend_def)

lemma delay_run_fields:
  "wallet (delay env ms (s::run_state)) = wallet s" "assets (delay env ms (s::run_state)) = assets s"
  by (simp_all add: delay_def suspend_run_fields emit_run_fields)

lemmas run_fields = emit_trace suspend_trace emit_run_fields suspend_run_fields delay_run_fields
  delay_fields(1) pollLoop_run_fields

lemma deviceCall_ex:
  "\<exists>s1. deviceCall env c (s::run_state) = (device env (trace s) c, s1) \<and>
        trace s1 = trace s @ [DeviceCall c, DeviceSettled c (device env (trace s) c)] \<and>
        wallet s1 = wallet s \<and> assets s1 = assets s"
  by (simp add: deviceCall_def Let_def run_fields)

lemma deriveCro_cases [case_names rejected noAsset ok]:
  assumes "\<And>e s'. deriveCro env s = (Some e, s') \<Longrightarrow>
             trace s' = trace s @ croEvents (croCall (wallet s)) (Inl e) \<Longrightarrow>
             wallet s' = wallet s \<Longrightarrow> assets s' = assets s \<Longrightarrow> P"
    and "\<And>a s'. deriveCro env s = (Some (TypeError ''Cannot set properties of undefined''), s') \<Longrightarrow>
             assignFirst isCroAsset a (assets s) = None \<Longrightarrow>
             trace s' = trace s @ croEvents (croCall (wallet s)) (Inr a) \<Longrightarrow>
             wallet s' = wallet s \<Longrightarrow> assets s' = assets s \<Longrightarrow> P"
    and "\<And>a as' s'. deriveCro env s = (None, s') \<Longrightarrow>
             assignFirst isCroAsset a (assets s) = Some as' \<Longrightarrow>
             trace s' = trace s @ croEvents (croCall (wallet s)) (Inr a) \<Longrightarrow>
             wallet s' = (wallet s)\<lparr>wallet_address := a\<rparr> \<Longrightarrow> assets s' = as' \<Longrightarrow> P"
  shows P
proof -
  from deviceCall_ex[of env "croCall (wallet s)" s] obtain s1 where
    d: "deviceCall env (croCall (wallet s)) s = (device env (trace s) (croCall (wallet s)), s1)"
    and f: "trace s1 = trace s @ croEvents (croCall (wallet s)) (device env (trace s) (croCall (wallet s)))"
      "wallet s1 = wallet s" "assets s1 = assets s"
    by (auto simp: croEvents_def)
  show ?thesis
  proof (cases "device env (trace s) (croCall (wallet s))")
    case (Inl e)
    with d f show ?thesis
      by (intro assms(1)[of e s1]) (simp_all add: deriveCro_def)
  next
    case (Inr a)
    show ?thesis
    proof (cases "assignFirst isCroAsset a (assets s)")
      case None
      with Inr d f show ?thesis
        by (intro assms(2)[of s1 a]) (simp_all add: deriveCro_def)
    next
      case (Some as')
      with Inr d f show ?thesis
        by (intro assms(3)[of "snd (deriveCro env s)" a as']) (simp_all add: deriveCro_def)
    qed
  qed
qed

lemma deriveEth_cases [case_names rejected ok]:
  assumes "\<And>e n s'. deriveEth env form s = (Some e, s') \<Longrightarrow> 1 \<le> n \<Longrightarrow> n \<le> 600 \<Longrightarrow>
             n = pollCount env (emit (Ui (setIsEthModalVisible True)) (s\<lparr>waitFlag := True\<rparr>)) \<Longrightarrow>
             trace s' = trace s @ ethEvents n (ethCall form (wallet s)) (Inl e) \<Longrightarrow>
             wallet s' = wallet s \<Longrightarrow> assets s' = assets s \<Longrightarrow> P"
    and "\<And>a n s'. deriveEth env form s = (None, s') \<Longrightarrow> 1 \<le> n \<Longrightarrow> n \<le> 600 \<Longrightarrow>
             n = pollCount env (emit (Ui (setIsEthModalVisible True)) (s\<lparr>waitFlag := True\<rparr>)) \<Longrightarrow>
             trace s' = trace s @ ethEvents n (ethCall form (wallet s)) (Inr a) @ ethTail \<Longrightarrow>
             wallet s' = wallet s \<Longrightarrow> assets s' = setEvmAddress a (assets s) \<Longrightarrow> P"
  shows P
proof -
  let ?s2 = "emit (Ui (setIsEthModalVisible True)) (s\<lparr>waitFlag := True\<rparr>)"
  let ?s3 = "pollLoop env 0 ?s2"
  from pollLoop_count[of env ?s2] obtain n where n: "1 \<le> n" "n \<le> 600"
    "trace ?s3 = trace s @ Ui (setIsEthModalVisible True) # replicate n (Delay 100)"
    and pc: "n = pollCount env ?s2"
    by (auto simp: run_fields Let_def)
  have w: "wallet ?s3 = wallet s" "assets ?s3 = assets s"
    by (simp_all add: run_fields)
  from deviceCall_ex[of env "ethCall form (wallet s)" ?s3] obtain s4 where
    d: "deviceCall env (ethCall form (wallet s)) ?s3 =
          (device env (trace ?s3) (ethCall form (wallet s)), s4)"
    and f: "trace s4 = trace s @ ethEvents n (ethCall form (wallet s))
                                  (device env (trace ?s3) (ethCall form (wallet s)))"
      "wallet s4 = wallet s" "assets s4 = assets s"
    by (auto simp: ethEvents_def n w)
  show ?thesis
  proof (cases "device env (trace ?s3) (ethCall form (wallet s))")
    case (Inl e)
    with n pc d f show ?thesis
      by (intro assms(1)[of e s4 n]) (simp_all add: deriveEth_def Let_def w)
  next
    case (Inr a)
    with n pc d f show ?thesis
      by (intro assms(2)[of "snd (deriveEth env form s)" n a])
         (simp_all add: deriveEth_def Let_def w run_fields ethTail_def setEvmAddress_def)
  qed
qed

lemma deriveCosmos_cases [case_names rejected noAsset ok]:
  assumes "\<And>e n s'. deriveCosmos env s = (Some e, s') \<Longrightarrow> 1 \<le> n \<Longrightarrow> n \<le> 600 \<Longrightarrow>
             n = pollCount env (emit (Ui (setIsCosmosModalVisible True)) (s\<lparr>waitFlag := True\<rparr>)) \<Longrightarrow>
             trace s' = trace s @ cosmosEvents n (cosmosCall (wallet s)) (Inl e) \<Longrightarrow>
             wallet s' = wallet s \<Longrightarrow> assets s' = assets s \<Longrightarrow> P"
    and "\<And>a n s'. deriveCosmos env s = (Some (TypeError ''Cannot set properties of undefined''), s') \<Longrightarrow>
             1 \<le> n \<Longrightarrow> n \<le> 600 \<Longrightarrow>
             n = pollCount env (emit (Ui (setIsCosmosModalVisible True)) (s\<lparr>waitFlag := True\<rparr>)) \<Longrightarrow>
             assignFirst isAtomAsset a (assets s) = None \<Longrightarrow>
             trace s' = trace s @ cosmosEvents n (cosmosCall (wallet s)) (Inr a) \<Longrightarrow>
             wallet s' = wallet s \<Longrightarrow> assets s' = assets s \<Longrightarrow> P"
    and "\<And>a as' n s'. deriveCosmos env s = (None, s') \<Longrightarrow> 1 \<le> n \<Longrightarrow> n \<le> 600 \<Longrightarrow>
             n = pollCount env (emit (Ui (setIsCosmosModalVisible True)) (s\<lparr>waitFlag := True\<rparr>)) \<Longrightarrow>
             assignFirst isAtomAsset a (assets s) = Some as' \<Longrightarrow>
             trace s' = trace s @ cosmosEvents n (cosmosCall (wallet s)) (Inr a) \<Longrightarrow>
             wallet s' = wallet s \<Longrightarrow> assets s' = as' \<Longrightarrow> P"
  shows P
proof -
  let ?s2 = "emit (Ui (setIsCosmosModalVisible True)) (s\<lparr>waitFlag := True\<rparr>)"
  let ?s3 = "pollLoop env 0 ?s2"
  let ?s4 = "emit (Ui (setIsLedgerCosmosAppConnected True)) ?s3"
  from pollLoop_count[of env ?s2] obtain n where n: "1 \<le> n" "n \<le> 600"
    "trace ?s3 = trace s @ Ui (setIsCosmosModalVisible True) # replicate n (Delay 100)"
    and pc: "n = pollCount env ?s2"
    by (auto simp: run_fields Let_def)
  have w: "wallet ?s3 = wallet s" "assets ?s3 = assets s"
    by (simp_all add: run_fields)
  have w4: "wallet ?s4 = wallet s" "assets ?s4 = assets s"
    "trace ?s4 = trace s @ Ui (setIsCosmosModalVisible True) # replicate n (Delay 100) @
                   [Ui (setIsLedgerCosmosAppConnected True)]"
    by (simp_all only: emit_run_fields emit_trace w n) simp
  from deviceCall_ex[of env "cosmosCall (wallet s)" ?s4] obtain s5 where
    d: "deviceCall env (cosmosCall (wallet s)) ?s4 =
          (device env (trace ?s4) (cosmosCall (wallet s)), s5)"
    and f: "trace s5 = trace s @ cosmosEvents n (cosmosCall (wallet s))
                                  (device env (trace ?s4) (cosmosCall (wallet s)))"
      "wallet s5 = wallet s" "assets s5 = assets s"
    by (auto simp: cosmosEvents_def w4)
  show ?thesis
  proof (cases "device env (trace ?s4) (cosmosCall (wallet s))")
    case (Inl e)
    with n pc d f show ?thesis
      by (intro assms(1)[of e s5 n]) (simp_all add: deriveCosmos_def Let_def w4)
  next
    case (Inr a)
    show ?thesis
    proof (cases "assignFirst isAtomAsset a (assets s)")
      case None
      with Inr n pc d f show ?thesis
        by (intro assms(2)[of s5 n a]) (simp_all add: deriveCosmos_def Let_def w4)
    next
      case (Some as')
      with Inr n pc d f show ?thesis
        by (intro assms(3)[of "snd (deriveCosmos env s)" n a as'])
           (simp_all add: deriveCosmos_def Let_def w4)
    qed
  qed
qed

lemma catchBlock_fields:
  "trace (catchBlock e s) = trace s @ catchEvents e"
  "wallet (catchBlock e (r::run_state)) = wallet r"
  "assets (catchBlock e (r::run_state)) = assets r"
  by (simp_all add: catchBlock_def catchEvents_def emit_def)

lemma afterDerivation_cases [case_names saveRejected completed]:
  assumes "\<And>e sf. afterDerivation env s = Caught e sf \<Longrightarrow>
             trace sf = trace s @ [SaveAssets (assets s)] @ catchEvents e \<Longrightarrow>
             wallet sf = wallet s \<Longrightarrow> assets sf = assets s \<Longrightarrow> P"
    and "\<And>sf. afterDerivation env s = Completed sf \<Longrightarrow>
             trace sf = trace s @ [SaveAssets (assets s)] @ finishEvents (wallet s) \<Longrightarrow>
             wallet sf = wallet s \<Longrightarrow> assets sf = assets s \<Longrightarrow> P"
  shows P
proof (cases "saveAssets env (trace s) (assets s)")
  case None
  then show ?thesis
    by (intro assms(2)[of "emit (Ui resetFields)
                 (emit (Ui (setIsModalVisible True))
                   (emit (Ui (setIsLedgerCosmosAppConnected False))
                     (emit (Ui (setIsLedgerEthAppConnected False))
                       (emit (Ui (setIsLedgerCroAppConnected False))
                         (emit (Ui (setCreateLoading False))
                           (emit (Ui (setWallet (wallet s)))
                             (emit (Ui (setWalletTempBackupSeed (wallet s)))
                               (suspend env (emit (SaveAssets (assets s)) s)))))))))"])
       (simp_all add: afterDerivation_def Let_def run_fields finishEvents_def)
next
  case (Some e)
  then show ?thesis
    by (intro assms(1)[of e "catchBlock e (suspend env (emit (SaveAssets (assets s)) s))"])
       (simp_all add: afterDerivation_def Let_def run_fields catchBlock_fields)
qed

lemma ledgerRun_unfold:
  assumes "ledgerRun env form wt cfg cw"
  shows "onWalletCreateFinishCore env form s0 =
           (case ledgerSequence env form (startState env (createOptionsOf env form wt cfg) cw s0) of
              (Some e, s3) \<Rightarrow> Caught e (catchBlock e s3)
            | (None, s3) \<Rightarrow> afterDerivation env s3)"
  using assms
  by (simp add: ledgerRun_def onWalletCreateFinishCore_def Let_def createOptionsOf_def
      startState_def prelude_def emit_def suspend_def)

lemma call_wallet_address [simp]:
  "croCall (w\<lparr>wallet_address := a\<rparr>) = croCall w"
  "ethCall form (w\<lparr>wallet_address := a\<rparr>) = ethCall form w"
  "cosmosCall (w\<lparr>wallet_address := a\<rparr>) = cosmosCall w"
  by (simp_all add: croCall_def ethCall_def cosmosCall_def)

lemma ledgerSequence_cases
  [case_names croRejected noCroAsset ethRejected cosmosRejected noAtomAsset derived]:
  assumes "\<And>e s'. ledgerSequence env form s = (Some e, s') \<Longrightarrow>
             trace s' = trace s @ croEvents (croCall (wallet s)) (Inl e) \<Longrightarrow>
             wallet s' = wallet s \<Longrightarrow> assets s' = assets s \<Longrightarrow> P"
    and "\<And>a1 s'. ledgerSequence env form s =
               (Some (TypeError ''Cannot set properties of undefined''), s') \<Longrightarrow>
             assignFirst isCroAsset a1 (assets s) = None \<Longrightarrow>
             trace s' = trace s @ croEvents (croCall (wallet s)) (Inr a1) \<Longrightarrow>
             wallet s' = wallet s \<Longrightarrow> assets s' = assets s \<Longrightarrow> P"
    and "\<And>a1 as1 n1 e s'. ledgerSequence env form s = (Some e, s') \<Longrightarrow>
             assignFirst isCroAsset a1 (assets s) = Some as1 \<Longrightarrow> 1 \<le> n1 \<Longrightarrow> n1 \<le> 600 \<Longrightarrow>
             trace s' = trace s @ croEvents (croCall (wallet s)) (Inr a1) @
                        ethEvents n1 (ethCall form (wallet s)) (Inl e) \<Longrightarrow>
             wallet s' = (wallet s)\<lparr>wallet_address := a1\<rparr> \<Longrightarrow> assets s' = as1 \<Longrightarrow> P"
    and "\<And>a1 as1 n1 a2 n2 e s'. ledgerSequence env form s = (Some e, s') \<Longrightarrow>
             assignFirst isCroAsset a1 (assets s) = Some as1 \<Longrightarrow> 1 \<le> n1 \<Longrightarrow> n1 \<le> 600 \<Longrightarrow>
             1 \<le> n2 \<Longrightarrow> n2 \<le> 600 \<Longrightarrow>
             trace s' = trace s @ croEvents (croCall (wallet s)) (Inr a1) @
                        ethEvents n1 (ethCall form (wallet s)) (Inr a2) @ ethTail @
                        cosmosEvents n2 (cosmosCall (wallet s)) (Inl e) \<Longrightarrow>
             wallet s' = (wallet s)\<lparr>wallet_address := a1\<rparr> \<Longrightarrow>
             assets s' = setEvmAddress a2 as1 \<Longrightarrow> P"
    and "\<And>a1 as1 n1 a2 n2 a3 s'. ledgerSequence env form s =
               (Some (TypeError ''Cannot set properties of undefined''), s') \<Longrightarrow>
             assignFirst isCroAsset a1 (assets s) = Some as1 \<Longrightarrow> 1 \<le> n1 \<Longrightarrow> n1 \<le> 600 \<Longrightarrow>
             1 \<le> n2 \<Longrightarrow> n2 \<le> 600 \<Longrightarrow>
             assignFirst isAtomAsset a3 (setEvmAddress a2 as1) = None \<Longrightarrow>
             trace s' = trace s @ croEvents (croCall (wallet s)) (Inr a1) @
                        ethEvents n1 (ethCall form (wallet s)) (Inr a2) @ ethTail @
                        cosmosEvents n2 (cosmosCall (wallet s)) (Inr a3) \<Longrightarrow>
             wallet s' = (wallet s)\<lparr>wallet_address := a1\<rparr> \<Longrightarrow>
             assets s' = setEvmAddress a2 as1 \<Longrightarrow> P"
    and "\<And>a1 as1 n1 a2 n2 a3 as3 s'. ledgerSequence env form s = (None, s') \<Longrightarrow>
             assignFirst isCroAsset a1 (assets s) = Some as1 \<Longrightarrow> 1 \<le> n1 \<Longrightarrow> n1 \<le> 600 \<Longrightarrow>
             1 \<le> n2 \<Longrightarrow> n2 \<le> 600 \<Longrightarrow>
             assignFirst isAtomAsset a3 (setEvmAddress a2 as1) = Some as3 \<Longrightarrow>
             trace s' = trace s @ croEvents (croCall (wallet s)) (Inr a1) @
                        ethEvents n1 (ethCall form (wallet s)) (Inr a2) @ ethTail @
                        cosmosEvents n2 (cosmosCall (wallet s)) (Inr a3) \<Longrightarrow>
             wallet s' = (wallet s)\<lparr>wallet_address := a1\<rparr> \<Longrightarrow> assets s' = as3 \<Longrightarrow> P"
  shows P
proof (cases rule: deriveCro_cases[of env s])
  case (rejected e s')
  then show ?thesis by (intro assms(1)[of e s']) (simp_all add: ledgerSequence_def)
next
  case (noAsset a s')
  then show ?thesis by (intro assms(2)[of s' a]) (simp_all add: ledgerSequence_def)
next
  case cro: (ok a1 as1 s1)
  show ?thesis
  proof (cases rule: deriveEth_cases[of env form s1])
    case (rejected e n s')
    with cro show ?thesis
      by (intro assms(3)[of e s' a1 as1 n]) (simp_all add: ledgerSequence_def)
  next
    case eth: (ok a2 n1 s2)
    show ?thesis
    proof (cases rule: deriveCosmos_cases[of env s2])
      case (rejected e n s')
      with cro eth show ?thesis
        by (intro assms(4)[of e s' a1 as1 n1 n a2]) (simp_all add: ledgerSequence_def)
    next
      case (noAsset a3 n s')
      with cro eth show ?thesis
        by (intro assms(5)[of s' a1 as1 n1 n a3 a2]) (simp_all add: ledgerSequence_def)
    next
      case (ok a3 as3 n s')
      with cro eth show ?thesis
        by (intro assms(6)[of s' a1 as1 n1 n a3 a2 as3]) (simp_all add: ledgerSequence_def)
    qed
  qed
qed

lemma deviceCalls_append: "deviceCalls (xs @ ys) = deviceCalls xs @ deviceCalls ys"
  by (induction xs rule: deviceCalls.induct) simp_all

lemma settlements_append: "settlements (xs @ ys) = settlements xs @ settlements ys"
  by (induction xs rule: settlements.induct) simp_all

lemma saves_append: "saves (xs @ ys) = saves xs @ saves ys"
  by (induction xs rule: saves.induct) simp_all

lemma polls_silent:
  "deviceCalls (replicate n (Delay ms)) = []" "settlements (replicate n (Delay ms)) = []"
  "saves (replicate n (Delay ms)) = []" "filter isDeviceEvent (replicate n (Delay ms)) = []"
  by (induction n) simp_all

lemmas event_defs = prelude_def croEvents_def ethEvents_def ethTail_def cosmosEvents_def
  catchEvents_def finishEvents_def

lemmas observe = deviceCalls_append settlements_append saves_append polls_silent

lemma startState_fields:
  "trace (startState env opts cw s0) = trace s0 @ prelude opts"
  "wallet (startState env opts cw s0) = cw_wallet cw"
  "assets (startState env opts cw s0) = cw_assets cw"
  by (simp_all add: startState_def)

lemma ledgerRun_cases
  [consumes 1, case_names croRejected noCroAsset ethRejected cosmosRejected noAtomAsset
     saveRejected completed]:
  assumes run: "ledgerRun env form wt cfg cw"
    and "\<And>e sf. onWalletCreateFinishCore env form s0 = Caught e sf \<Longrightarrow>
           runEvents s0 (onWalletCreateFinishCore env form s0) =
             prelude (createOptionsOf env form wt cfg) @
             croEvents (croCall (cw_wallet cw)) (Inl e) @ catchEvents e \<Longrightarrow>
           wallet sf = cw_wallet cw \<Longrightarrow> assets sf = cw_assets cw \<Longrightarrow> P"
    and "\<And>a1 sf. onWalletCreateFinishCore env form s0 =
             Caught (TypeError ''Cannot set properties of undefined'') sf \<Longrightarrow>
           assignFirst isCroAsset a1 (cw_assets cw) = None \<Longrightarrow>
           runEvents s0 (onWalletCreateFinishCore env form s0) =
             prelude (createOptionsOf env form wt cfg) @
             croEvents (croCall (cw_wallet cw)) (Inr a1) @
             catchEvents (TypeError ''Cannot set properties of undefined'') \<Longrightarrow>
           wallet sf = cw_wallet cw \<Longrightarrow> assets sf = cw_assets cw \<Longrightarrow> P"
    and "\<And>a1 as1 n1 e sf. onWalletCreateFinishCore env form s0 = Caught e sf \<Longrightarrow>
           assignFirst isCroAsset a1 (cw_assets cw) = Some as1 \<Longrightarrow> 1 \<le> n1 \<Longrightarrow> n1 \<le> 600 \<Longrightarrow>
           runEvents s0 (onWalletCreateFinishCore env form s0) =
             prelude (createOptionsOf env form wt cfg) @
             croEvents (croCall (cw_wallet cw)) (Inr a1) @
             ethEvents n1 (ethCall form (cw_wallet cw)) (Inl e) @ catchEvents e \<Longrightarrow>
           wallet sf = (cw_wallet cw)\<lparr>wallet_address := a1\<rparr> \<Longrightarrow> assets sf = as1 \<Longrightarrow> P"
    and "\<And>a1 as1 n1 a2 n2 e sf. onWalletCreateFinishCore env form s0 = Caught e sf \<Longrightarrow>
           assignFirst isCroAsset a1 (cw_assets cw) = Some as1 \<Longrightarrow> 1 \<le> n1 \<Longrightarrow> n1 \<le> 600 \<Longrightarrow>
           1 \<le> n2 \<Longrightarrow> n2 \<le> 600 \<Longrightarrow>
           runEvents s0 (onWalletCreateFinishCore env form s0) =
             prelude (createOptionsOf env form wt cfg) @
             croEvents (croCall (cw_wallet cw)) (Inr a1) @
             ethEvents n1 (ethCall form (cw_wallet cw)) (Inr a2) @ ethTail @
             cosmosEvents n2 (cosmosCall (cw_wallet cw)) (Inl e) @ catchEvents e \<Longrightarrow>
           wallet sf = (cw_wallet cw)\<lparr>wallet_address := a1\<rparr> \<Longrightarrow>
           assets sf = setEvmAddress a2 as1 \<Longrightarrow> P"
    and "\<And>a1 as1 n1 a2 n2 a3 sf. onWalletCreateFinishCore env form s0 =
             Caught (TypeError ''Cannot set properties of undefined'') sf \<Longrightarrow>
           assignFirst isCroAsset a1 (cw_assets cw) = Some as1 \<Longrightarrow> 1 \<le> n1 \<Longrightarrow> n1 \<le> 600 \<Longrightarrow>
           1 \<le> n2 \<Longrightarrow> n2 \<le> 600 \<Longrightarrow>
           assignFirst isAtomAsset a3 (setEvmAddress a2 as1) = None \<Longrightarrow>
           runEvents s0 (onWalletCreateFinishCore env form s0) =
             prelude (createOptionsOf env form wt cfg) @
             croEvents (croCall (cw_wallet cw)) (Inr a1) @
             ethEvents n1 (ethCall form (cw_wallet cw)) (Inr a2) @ ethTail @
             cosmosEvents n2 (cosmosCall (cw_wallet cw)) (Inr a3) @
             catchEvents (TypeError ''Cannot set properties of undefined'') \<Longrightarrow>
           wallet sf = (cw_wallet cw)\<lparr>wallet_address := a1\<rparr> \<Longrightarrow>
           assets sf = setEvmAddress a2 as1 \<Longrightarrow> P"
    and "\<And>a1 as1 n1 a2 n2 a3 as3 e sf. onWalletCreateFinishCore env form s0 = Caught e sf \<Longrightarrow>
           assignFirst isCroAsset a1 (cw_assets cw) = Some as1 \<Longrightarrow> 1 \<le> n1 \<Longrightarrow> n1 \<le> 600 \<Longrightarrow>
           1 \<le> n2 \<Longrightarrow> n2 \<le> 600 \<Longrightarrow>
           assignFirst isAtomAsset a3 (setEvmAddress a2 as1) = Some as3 \<Longrightarrow>
           runEvents s0 (onWalletCreateFinishCore env form s0) =
             prelude (createOptionsOf env form wt cfg) @
             croEvents (croCall (cw_wallet cw)) (Inr a1) @
             ethEvents n1 (ethCall form (cw_wallet cw)) (Inr a2) @ ethTail @
             cosmosEvents n2 (cosmosCall (cw_wallet cw)) (Inr a3) @
             [SaveAssets as3] @ catchEvents e \<Longrightarrow>
           wallet sf = (cw_wallet cw)\<lparr>wallet_address := a1\<rparr> \<Longrightarrow> assets sf = as3 \<Longrightarrow> P"
    and "\<And>a1 as1 n1 a2 n2 a3 as3 sf. onWalletCreateFinishCore env form s0 = Completed sf \<Longrightarrow>
           assignFirst isCroAsset a1 (cw_assets cw) = Some as1 \<Longrightarrow> 1 \<le> n1 \<Longrightarrow> n1 \<le> 600 \<Longrightarrow>
           1 \<le> n2 \<Longrightarrow> n2 \<le> 600 \<Longrightarrow>
           assignFirst isAtomAsset a3 (setEvmAddress a2 as1) = Some as3 \<Longrightarrow>
           runEvents s0 (onWalletCreateFinishCore env form s0) =
             prelude (createOptionsOf env form wt cfg) @
             croEvents (croCall (cw_wallet cw)) (Inr a1) @
             ethEvents n1 (ethCall form (cw_wallet cw)) (Inr a2) @ ethTail @
             cosmosEvents n2 (cosmosCall (cw_wallet cw)) (Inr a3) @
             [SaveAssets as3] @ finishEvents ((cw_wallet cw)\<lparr>wallet_address := a1\<rparr>) \<Longrightarrow>
           wallet sf = (cw_wallet cw)\<lparr>wallet_address := a1\<rparr> \<Longrightarrow> assets sf = as3 \<Longrightarrow> P"
  shows P
proof -
  let ?opts = "createOptionsOf env form wt cfg"
  let ?s = "startState env ?opts cw s0"
  note u = ledgerRun_unfold[OF run, of s0]
  show ?thesis
  proof (cases rule: ledgerSequence_cases[of env form ?s])
    case (croRejected e s')
    then show ?thesis
      by (intro assms(2)[of e "catchBlock e s'"])
         (simp_all add: u runEvents_def catchBlock_fields startState_fields)
  next
    case (noCroAsset a1 s')
    then show ?thesis
      by (intro assms(3)[of "catchBlock (TypeError ''Cannot set properties of undefined'') s'" a1])
         (simp_all add: u runEvents_def catchBlock_fields startState_fields)
  next
    case (ethRejected a1 as1 n1 e s')
    then show ?thesis
      by (intro assms(4)[of e "catchBlock e s'" a1 as1 n1])
         (simp_all add: u runEvents_def catchBlock_fields startState_fields)
  next
    case (cosmosRejected a1 as1 n1 a2 n2 e s')
    then show ?thesis
      by (intro assms(5)[of e "catchBlock e s'" a1 as1 n1 n2 a2])
         (simp_all add: u runEvents_def catchBlock_fields startState_fields)
  next
    case (noAtomAsset a1 as1 n1 a2 n2 a3 s')
    then show ?thesis
      by (intro assms(6)[of "catchBlock (TypeError ''Cannot set properties of undefined'') s'"
            a1 as1 n1 n2 a3 a2])
         (simp_all add: u runEvents_def catchBlock_fields startState_fields)
  next
    case d: (derived a1 as1 n1 a2 n2 a3 as3 s')
    show ?thesis
    proof (cases rule: afterDerivation_cases[of env s'])
      case (saveRejected e sf)
      with d show ?thesis
        by (intro assms(7)[of e sf a1 as1 n1 n2 a3 a2 as3])
           (simp_all add: u runEvents_def startState_fields)
    next
      case (completed sf)
      with d show ?thesis
        by (intro assms(8)[of sf a1 as1 n1 n2 a3 a2 as3])
           (simp_all add: u runEvents_def startState_fields)
    qed
  qed
qed

lemma call_distinct:
  "croCall w \<noteq> ethCall form w" "croCall w \<noteq> cosmosCall w" "ethCall form w \<noteq> cosmosCall w"
  "ethCall form w \<noteq> croCall w" "cosmosCall w \<noteq> croCall w" "cosmosCall w \<noteq> ethCall form w"
  by (simp_all add: croCall_def ethCall_def cosmosCall_def)








lemmas demo_page_defs = demo_wallet_def demo_assets_def demo_created_def demo_device_def
  wrong_app_device_def demo_page_env_def wrong_app_env_def demo_form_def demo_page_def

lemma demo_ledgerRun:
  "ledgerRun demo_page_env demo_form LEDGER \<lparr>addressPrefix = ''cro''\<rparr> demo_created"
  "ledgerRun wrong_app_env demo_form LEDGER \<lparr>addressPrefix = ''cro''\<rparr> demo_created"
  by (simp_all add: ledgerRun_def demo_page_defs)

lemmas run_defs = onWalletCreateFinishCore_def ledgerSequence_def deriveCro_def deriveEth_def
  deriveCosmos_def afterDerivation_def catchBlock_def deviceCall_def delay_def suspend_def
  emit_def croCall_def ethCall_def cosmosCall_def isCroAsset_def isEvmAsset_def isAtomAsset_def
  Let_def

lemma pollLoop_one:
  "handler_fired env (trace s @ [Delay 100]) \<Longrightarrow> pollLoop env 0 s = delay env 100 s"
  by (simp add: pollLoop.simps[of _ 0] delay_def suspend_def emit_def Let_def)

lemma demo_completed:
  "\<exists>sf. onWalletCreateFinishCore demo_page_env demo_form demo_page = Completed sf"
  by (simp add: run_defs pollLoop_one demo_page_defs)

lemma wrong_app_settled:
  "(ethCall demo_form demo_wallet, Inl (Rejected ''wrong app'')) \<in>
     set (settlements (runEvents demo_page (onWalletCreateFinishCore wrong_app_env demo_form demo_page)))"
  by (simp add: run_defs pollLoop_one runEvents_def demo_page_defs)

lemma delay100_count:
  "length (filter (\<lambda>ev. ev = Delay 100) (replicate n (Delay 100))) = n"
  by (induction n) simp_all


lemma wrong_app_settled':
  "(ethCall demo_form (cw_wallet demo_created), Inl (Rejected ''wrong app'')) \<in>
     set (settlements (runEvents demo_page (onWalletCreateFinishCore wrong_app_env demo_form demo_page)))"
  using wrong_app_settled by (simp add: demo_created_def)


section \<open>Wallet creation page: the properties\<close>

text \<open>
  C2, as stated, fails: a run for a Ledger wallet need not issue three device calls.
  With the Ethereum app not open on the device, the Ethereum call is rejected and the run
  has issued two calls, the Crypto.org \<open>getAddress\<close> and the \<open>getEthAddress\<close>.
\<close>

theorem two_calls_counterexample:
  "ledgerRun wrong_app_env demo_form LEDGER \<lparr>addressPrefix = ''cro''\<rparr> demo_created \<and>
   deviceCalls (runEvents demo_page (onWalletCreateFinishCore wrong_app_env demo_form demo_page)) =
     [getAddress 0 ''cro'' CRYPTO_ORG BIP44 False, getEthAddress 0 BIP44 False]"
  by (simp add: demo_ledgerRun)
     (simp add: run_defs pollLoop_one runEvents_def demo_page_defs)

text \<open>
  C2, amended. In a run for a Ledger wallet the device calls issued are, in this order,
  the Crypto.org \<open>getAddress\<close>, the \<open>getEthAddress\<close> and the Cosmos Hub \<open>getAddress\<close>,
  never out of order and never skipping one; each call is followed by its own settlement
  before the next call is issued. A run that reaches its normal end has issued exactly
  these three calls, and a run with fewer has ended in the \<open>catch\<close> block.
\<close>

theorem ledger_calls_in_order:
  assumes "ledgerRun env form wt cfg cw"
  shows "(let res = onWalletCreateFinishCore env form s0;
              tr = runEvents s0 res;
              c1 = croCall (cw_wallet cw);
              c2 = ethCall form (cw_wallet cw);
              c3 = cosmosCall (cw_wallet cw)
          in (deviceCalls tr = [c1] \<or> deviceCalls tr = [c1, c2] \<or> deviceCalls tr = [c1, c2, c3]) \<and>
             callThenSettle (filter isDeviceEvent tr) \<and>
             ((\<exists>sf. res = Completed sf) \<longrightarrow> deviceCalls tr = [c1, c2, c3]) \<and>
             (deviceCalls tr \<noteq> [c1, c2, c3] \<longrightarrow> (\<exists>e sf. res = Caught e sf)))"
  using assms
proof (cases rule: ledgerRun_cases[where ?s0.0 = s0])
  case (croRejected e sf)
  then show ?thesis by (simp add: Let_def event_defs observe)
next
  case (noCroAsset a1 sf)
  then show ?thesis by (simp add: Let_def event_defs observe)
next
  case (ethRejected a1 as1 n1 e sf)
  then show ?thesis by (simp add: Let_def event_defs observe)
next
  case (cosmosRejected a1 as1 n1 a2 n2 e sf)
  then show ?thesis by (simp add: Let_def event_defs observe)
next
  case (noAtomAsset a1 as1 n1 a2 n2 a3 sf)
  then show ?thesis by (simp add: Let_def event_defs observe)
next
  case (saveRejected a1 as1 n1 a2 n2 a3 as3 e sf)
  then show ?thesis by (simp add: Let_def event_defs observe)
next
  case (completed a1 as1 n1 a2 n2 a3 as3 sf)
  then show ?thesis by (simp add: Let_def event_defs observe)
qed

theorem ledger_calls_in_order_witness:
  "ledgerRun demo_page_env demo_form LEDGER \<lparr>addressPrefix = ''cro''\<rparr> demo_created \<and>
   deviceCalls (runEvents demo_page (onWalletCreateFinishCore demo_page_env demo_form demo_page)) =
     [croCall demo_wallet, ethCall demo_form demo_wallet, cosmosCall demo_wallet] \<and>
   callThenSettle (filter isDeviceEvent
     (runEvents demo_page (onWalletCreateFinishCore demo_page_env demo_form demo_page)))"
  using ledger_calls_in_order[OF demo_ledgerRun(1), of demo_page] demo_completed demo_ledgerRun(1)
  by (simp add: Let_def demo_created_def)

text \<open>
  C3. If a device call of a Ledger run is rejected, the run ends in the \<open>catch\<close> block
  with that error, the rejected call is the last device event, and \<open>saveAssets\<close> is not
  called. The draft in memory keeps what the earlier steps wrote: nothing when the
  Crypto.org call fails; the Crypto.org address on the wallet and on the CRO asset, and
  nothing else, when the Ethereum call fails (the Cosmos Hub call is then not issued);
  these and the Ethereum address on the EVM assets when the Cosmos Hub call fails.
\<close>

theorem device_failure_halts_run:
  assumes "ledgerRun env form wt cfg cw"
    and "(c, Inl e) \<in> set (settlements (runEvents s0 (onWalletCreateFinishCore env form s0)))"
  shows "(let res = onWalletCreateFinishCore env form s0;
              tr = runEvents s0 res;
              c1 = croCall (cw_wallet cw);
              c2 = ethCall form (cw_wallet cw);
              c3 = cosmosCall (cw_wallet cw)
          in \<exists>sf. res = Caught e sf \<and> saves tr = [] \<and>
               last (filter isDeviceEvent tr) = DeviceSettled c (Inl e) \<and>
               ((c = c1 \<and> deviceCalls tr = [c1] \<and> settlements tr = [(c1, Inl e)] \<and>
                 wallet sf = cw_wallet cw \<and> assets sf = cw_assets cw) \<or>
                (c = c2 \<and> deviceCalls tr = [c1, c2] \<and>
                 (\<exists>a1. settlements tr = [(c1, Inr a1), (c2, Inl e)] \<and>
                    assignFirst isCroAsset a1 (cw_assets cw) = Some (assets sf) \<and>
                    wallet sf = (cw_wallet cw)\<lparr>wallet_address := a1\<rparr>)) \<or>
                (c = c3 \<and> deviceCalls tr = [c1, c2, c3] \<and>
                 (\<exists>a1 a2 as1. settlements tr = [(c1, Inr a1), (c2, Inr a2), (c3, Inl e)] \<and>
                    assignFirst isCroAsset a1 (cw_assets cw) = Some as1 \<and>
                    assets sf = setEvmAddress a2 as1 \<and>
                    wallet sf = (cw_wallet cw)\<lparr>wallet_address := a1\<rparr>))))"
  using assms(1)
proof (cases rule: ledgerRun_cases[where ?s0.0 = s0])
  case (croRejected e' sf)
  with assms(2) show ?thesis by (simp add: Let_def event_defs observe call_distinct)
next
  case (noCroAsset a1 sf)
  with assms(2) show ?thesis by (simp add: Let_def event_defs observe)
next
  case (ethRejected a1 as1 n1 e' sf)
  with assms(2) show ?thesis by (simp add: Let_def event_defs observe call_distinct)
next
  case (cosmosRejected a1 as1 n1 a2 n2 e' sf)
  with assms(2) show ?thesis by (simp add: Let_def event_defs observe call_distinct)
next
  case (noAtomAsset a1 as1 n1 a2 n2 a3 sf)
  with assms(2) show ?thesis by (simp add: Let_def event_defs observe)
next
  case (saveRejected a1 as1 n1 a2 n2 a3 as3 e' sf)
  with assms(2) show ?thesis by (simp add: Let_def event_defs observe)
next
  case (completed a1 as1 n1 a2 n2 a3 as3 sf)
  with assms(2) show ?thesis by (simp add: Let_def event_defs observe)
qed

theorem device_failure_halts_run_witness:
  "ledgerRun wrong_app_env demo_form LEDGER \<lparr>addressPrefix = ''cro''\<rparr> demo_created \<and>
   saves (runEvents demo_page (onWalletCreateFinishCore wrong_app_env demo_form demo_page)) = [] \<and>
   deviceCalls (runEvents demo_page (onWalletCreateFinishCore wrong_app_env demo_form demo_page)) =
     [croCall demo_wallet, ethCall demo_form demo_wallet]"
  using device_failure_halts_run[OF demo_ledgerRun(2) wrong_app_settled'] demo_ledgerRun(2)
  by (auto simp: Let_def demo_created_def call_distinct)




text \<open>
  C7. The polling loop performs between 1 and 600 polls of 100 ms. It stops after the
  first poll at which \<open>waitFlag\<close> is found cleared: the flag is still set after every
  earlier poll, and when fewer than 600 polls were made the flag is cleared after the
  last one. In the Ethereum step and in the Cosmos Hub step the device call is issued
  right after the polls, whatever the flag is then. A Ledger run therefore makes at most
  1200 polls.
\<close>

theorem app_switch_wait_bounded:
  "(let n = pollCount env s in
      1 \<le> n \<and> n \<le> 600 \<and> pollLoop env 0 s = afterPolls env n s \<and>
      trace (pollLoop env 0 s) = trace s @ replicate n (Delay 100) \<and>
      (\<forall>k. 0 < k \<and> k < n \<longrightarrow> waitFlag (afterPolls env k s)) \<and>
      (n < 600 \<longrightarrow> \<not> waitFlag (afterPolls env n s))) \<and>
   (\<exists>r tl. trace (snd (deriveEth env form t)) =
        trace t @
        ethEvents (pollCount env (emit (Ui (setIsEthModalVisible True)) (t\<lparr>waitFlag := True\<rparr>)))
          (ethCall form (wallet t)) r @ tl) \<and>
   (\<exists>r tl. trace (snd (deriveCosmos env t)) =
        trace t @
        cosmosEvents (pollCount env (emit (Ui (setIsCosmosModalVisible True)) (t\<lparr>waitFlag := True\<rparr>)))
          (cosmosCall (wallet t)) r @ tl) \<and>
   (ledgerRun env form wt cfg cw \<longrightarrow>
      length (filter (\<lambda>ev. ev = Delay 100)
         (runEvents s0 (onWalletCreateFinishCore env form s0))) \<le> 1200)"
proof (intro conjI)
  show "let n = pollCount env s in
      1 \<le> n \<and> n \<le> 600 \<and> pollLoop env 0 s = afterPolls env n s \<and>
      trace (pollLoop env 0 s) = trace s @ replicate n (Delay 100) \<and>
      (\<forall>k. 0 < k \<and> k < n \<longrightarrow> waitFlag (afterPolls env k s)) \<and>
      (n < 600 \<longrightarrow> \<not> waitFlag (afterPolls env n s))"
    by (rule pollLoop_count)
next
  show "\<exists>r tl. trace (snd (deriveEth env form t)) =
        trace t @
        ethEvents (pollCount env (emit (Ui (setIsEthModalVisible True)) (t\<lparr>waitFlag := True\<rparr>)))
          (ethCall form (wallet t)) r @ tl"
  proof (cases rule: deriveEth_cases[of env form t])
    case (rejected e n s')
    then show ?thesis by (intro exI[where x = "Inl e"] exI[where x = "[]"]) simp
  next
    case (ok a n s')
    then show ?thesis by (intro exI[where x = "Inr a"] exI[where x = ethTail]) simp
  qed
next
  show "\<exists>r tl. trace (snd (deriveCosmos env t)) =
        trace t @
        cosmosEvents (pollCount env (emit (Ui (setIsCosmosModalVisible True)) (t\<lparr>waitFlag := True\<rparr>)))
          (cosmosCall (wallet t)) r @ tl"
  proof (cases rule: deriveCosmos_cases[of env t])
    case (rejected e n s')
    then show ?thesis by (intro exI[where x = "Inl e"] exI[where x = "[]"]) simp
  next
    case (noAsset a n s')
    then show ?thesis by (intro exI[where x = "Inr a"] exI[where x = "[]"]) simp
  next
    case (ok a as' n s')
    then show ?thesis by (intro exI[where x = "Inr a"] exI[where x = "[]"]) simp
  qed
next
  show "ledgerRun env form wt cfg cw \<longrightarrow>
      length (filter (\<lambda>ev. ev = Delay 100)
         (runEvents s0 (onWalletCreateFinishCore env form s0))) \<le> 1200"
  proof
    assume "ledgerRun env form wt cfg cw"
    then show "length (filter (\<lambda>ev. ev = Delay 100)
         (runEvents s0 (onWalletCreateFinishCore env form s0))) \<le> 1200"
      by (cases rule: ledgerRun_cases[where ?s0.0 = s0])
         (simp_all add: event_defs delay100_count)
  qed
qed

theorem app_switch_wait_bounded_witness:
  "ledgerRun demo_page_env demo_form LEDGER \<lparr>addressPrefix = ''cro''\<rparr> demo_created \<and>
   length (filter (\<lambda>ev. ev = Delay 100)
     (runEvents demo_page (onWalletCreateFinishCore demo_page_env demo_form demo_page))) \<le> 1200"
  using app_switch_wait_bounded[of demo_page_env demo_page demo_form _ LEDGER
          "\<lparr>addressPrefix = ''cro''\<rparr>" demo_created demo_page]
        demo_ledgerRun(1)
  by blast

end
